theory Spec2Isabelle
  imports Complex_Main "HOL-Library.Word"
begin

section \<open>The MPU6050 driver core (fake6050.c)\<close>

text \<open>
  A shallow embedding of the runtime core of \<^verbatim>\<open>src/fake6050.c\<close>: the placement
  remap, the power control, the engine switches, the sample-rate divider, the enable and
  poll-delay entry points of both channels, the timer callbacks and one iteration of each
  polling thread.  The driver state \<^verbatim>\<open>struct mpu6050_sensor\<close> is a record that every
  function takes and returns; C integers are words of their width; a function returning
  \<^verbatim>\<open>int\<close> returns an \<open>int\<close> beside the new state.
\<close>

subsection \<open>Constants\<close>

text \<open>Kernel constants (\<^verbatim>\<open>linux/time.h\<close>, \<^verbatim>\<open>errno-base.h\<close>).\<close>

definition MSEC_PER_SEC :: "32 word" where
  "MSEC_PER_SEC = 1000"

definition NSEC_PER_MSEC :: nat where
  "NSEC_PER_MSEC = 1000000"

definition EINVAL :: int where
  "EINVAL = 22"

definition EBUSY :: int where
  "EBUSY = 16"

text \<open>Constants defined in \<^verbatim>\<open>fake6050.c\<close> itself.\<close>

definition MPU6050_ACCEL_MIN_POLL_INTERVAL_MS :: nat where
  "MPU6050_ACCEL_MIN_POLL_INTERVAL_MS = 10"

definition MPU6050_ACCEL_MAX_POLL_INTERVAL_MS :: nat where
  "MPU6050_ACCEL_MAX_POLL_INTERVAL_MS = 5000"

definition MPU6050_ACCEL_DEFAULT_POLL_INTERVAL_MS :: "32 word" where
  "MPU6050_ACCEL_DEFAULT_POLL_INTERVAL_MS = 200"

definition MPU6050_GYRO_MIN_POLL_INTERVAL_MS :: nat where
  "MPU6050_GYRO_MIN_POLL_INTERVAL_MS = 10"

definition MPU6050_GYRO_MAX_POLL_INTERVAL_MS :: nat where
  "MPU6050_GYRO_MAX_POLL_INTERVAL_MS = 5000"

definition MPU6050_GYRO_DEFAULT_POLL_INTERVAL_MS :: "32 word" where
  "MPU6050_GYRO_DEFAULT_POLL_INTERVAL_MS = 200"

definition POLL_MS_100HZ :: "32 word" where
  "POLL_MS_100HZ = 10"

definition MPU6050_AXIS_REMAP_TAB_SZ :: int where
  "MPU6050_AXIS_REMAP_TAB_SZ = 8"

text \<open>
  The macros of the header \<^verbatim>\<open>fake6050.h\<close>, which is not part of the sources at hand:
  the output data rates in Hz with the low-pass filter on and off, the bounds of the delay
  in each mode, the FIFO rate of the initial configuration and the low-power wake-up
  frequency set at probe.  They are parameters of
  the model; each is a non-negative \<^verbatim>\<open>int\<close> literal that the code combines with
  \<^verbatim>\<open>u32\<close> operands, hence a 32-bit word here.
\<close>

record mpu_consts =
  ODR_DLPF_ENA :: "32 word"
  ODR_DLPF_DIS :: "32 word"
  DELAY_MS_MIN_DLPF :: "32 word"
  DELAY_MS_MAX_DLPF :: "32 word"
  DELAY_MS_MIN_NODLPF :: "32 word"
  DELAY_MS_MAX_NODLPF :: "32 word"
  INIT_FIFO_RATE :: "32 word"
  MPU6050_LPA_5HZ :: int

text \<open>
  One choice of these macros, used for concrete evaluations only: rates of 1 kHz and
  8 kHz (the rates \<^verbatim>\<open>mpu6050_get_sample_interval\<close> presupposes when it reads the
  divider as milliseconds, divided by 8 with the filter off), delays of 1 to 256 ms and
  of 1 to 32 ms (the ranges that fill the 8-bit divider at these rates), and the 50 Hz
  that the comment of \<^verbatim>\<open>mpu6050_init_config\<close> names.  The wake-up frequency code
  plays no role: the configuration is cleared after it is set.
\<close>

definition mpu6050_h :: mpu_consts where
  "mpu6050_h = \<lparr> ODR_DLPF_ENA = 1000, ODR_DLPF_DIS = 8000,
     DELAY_MS_MIN_DLPF = 1, DELAY_MS_MAX_DLPF = 256,
     DELAY_MS_MIN_NODLPF = 1, DELAY_MS_MAX_NODLPF = 32,
     INIT_FIFO_RATE = 50, MPU6050_LPA_5HZ = 1 \<rparr>"

subsection \<open>Data\<close>

text \<open>
  Modelled from the spec: \<^verbatim>\<open>enum mpu_filter\<close> of the absent header, for which the spec
  gives \<open>Enum{NoLpf, Lpf(levels), Reserved}\<close>.  The source names three of its values:
  \<^verbatim>\<open>MPU_DLPF_256HZ_NOLPF2\<close>, \<^verbatim>\<open>MPU_DLPF_RESERVED\<close> and the filter level
  \<^verbatim>\<open>MPU_DLPF_42HZ\<close> of the initial configuration.
\<close>

datatype mpu_filter =
  MPU_DLPF_256HZ_NOLPF2
  | MPU_DLPF_LEVEL nat
  | MPU_DLPF_42HZ
  | MPU_DLPF_RESERVED

text \<open>\<^verbatim>\<open>struct axis_data\<close>: six \<^verbatim>\<open>s16\<close>.\<close>

record axis_data =
  axis_x :: "16 word"
  axis_y :: "16 word"
  axis_z :: "16 word"
  axis_rx :: "16 word"
  axis_ry :: "16 word"
  axis_rz :: "16 word"

text \<open>
  \<^verbatim>\<open>struct mpu_chip_config\<close> (declared in the absent header): the fields this file
  reads or writes in the functions modelled here.  The one-bit flags are booleans;
  \<open>rate_div\<close> only ever receives \<^verbatim>\<open>u8\<close> values.
\<close>

record mpu_chip_config =
  lpf :: mpu_filter
  rate_div :: "8 word"
  is_asleep :: bool
  enable :: bool
  accel_enable :: bool
  gyro_enable :: bool
  lpa_freq :: int

text \<open>
  \<^verbatim>\<open>struct mpu6050_sensor\<close>.  A timer is \<open>None\<close> when it is not queued and
  \<open>Some t\<close> when it is queued to expire \<open>t\<close> nanoseconds after it was started;
  \<open>place\<close> is \<^verbatim>\<open>pdata->place\<close>; \<open>resume_work\<close> tells whether that work item is
  pending; the two atomic enable counters are integers.
\<close>

record mpu6050_sensor =
  cfg :: mpu_chip_config
  axis :: axis_data
  place :: int
  gyro_timer :: "nat option"
  accel_timer :: "nat option"
  resume_work :: bool
  gyro_poll_ms :: "32 word"
  accel_poll_ms :: "32 word"
  accel_en :: int
  gyro_en :: int
  use_poll :: bool
  batch_accel :: bool
  batch_gyro :: bool
  acc_cal_params :: "int \<times> int \<times> int"
  acc_use_cal :: bool
  power_enabled :: bool
  gyro_wkp_flag :: int
  accel_wkp_flag :: int
  gyro_delay_change :: bool
  accel_delay_change :: bool

subsection \<open>Placement remap\<close>

text \<open>
  \<^verbatim>\<open>struct sensor_axis_remap\<close>: signed bit-fields of 3 bits (sources 0, 1, 2) and
  2 bits (signs 1 and -1).
\<close>

record sensor_axis_remap =
  src_x :: int
  src_y :: int
  src_z :: int
  sign_x :: int
  sign_y :: int
  sign_z :: int

definition mk_remap :: "int \<Rightarrow> int \<Rightarrow> int \<Rightarrow> int \<Rightarrow> int \<Rightarrow> int \<Rightarrow> sensor_axis_remap" where
  "mk_remap a b c d e f =
     \<lparr> src_x = a, src_y = b, src_z = c, sign_x = d, sign_y = e, sign_z = f \<rparr>"

definition mpu6050_accel_axis_remap_tab :: "sensor_axis_remap list" where
  "mpu6050_accel_axis_remap_tab =
     [ mk_remap 0 1 2 1 1 1,
       mk_remap 1 0 2 1 (- 1) 1,
       mk_remap 0 1 2 (- 1) (- 1) 1,
       mk_remap 1 0 2 (- 1) 1 1,
       mk_remap 0 1 2 (- 1) 1 (- 1),
       mk_remap 1 0 2 (- 1) (- 1) (- 1),
       mk_remap 0 1 2 1 (- 1) (- 1),
       mk_remap 1 0 2 1 1 (- 1) ]"

definition mpu6050_gyro_axis_remap_tab :: "sensor_axis_remap list" where
  "mpu6050_gyro_axis_remap_tab =
     [ mk_remap 0 1 2 (- 1) 1 (- 1),
       mk_remap 1 0 2 (- 1) (- 1) (- 1),
       mk_remap 0 1 2 1 (- 1) (- 1),
       mk_remap 1 0 2 1 1 (- 1),
       mk_remap 0 1 2 1 1 1,
       mk_remap 1 0 2 1 (- 1) 1,
       mk_remap 0 1 2 (- 1) (- 1) 1,
       mk_remap 1 0 2 (- 1) 1 1 ]"

text \<open>
  \<^verbatim>\<open>tmp[src] * sign\<close>: the \<^verbatim>\<open>s16\<close> operand is promoted to \<^verbatim>\<open>int\<close>, multiplied, and
  the product is stored back into an \<^verbatim>\<open>s16\<close>, which keeps its low 16 bits.
\<close>

definition mul_s16 :: "16 word \<Rightarrow> int \<Rightarrow> 16 word" where
  "mul_s16 v sg = word_of_int (sint v * sg)"

definition mpu6050_remap_accel_data :: "axis_data \<Rightarrow> int \<Rightarrow> axis_data" where
  "mpu6050_remap_accel_data data plc =
     (if plc \<le> 0 \<or> plc \<ge> MPU6050_AXIS_REMAP_TAB_SZ then data
      else
        let remap = mpu6050_accel_axis_remap_tab ! nat plc;
            tmp = [axis_x data, axis_y data, axis_z data]
        in data\<lparr> axis_x := mul_s16 (tmp ! nat (src_x remap)) (sign_x remap),
                 axis_y := mul_s16 (tmp ! nat (src_y remap)) (sign_y remap),
                 axis_z := mul_s16 (tmp ! nat (src_z remap)) (sign_z remap) \<rparr>)"

definition mpu6050_remap_gyro_data :: "axis_data \<Rightarrow> int \<Rightarrow> axis_data" where
  "mpu6050_remap_gyro_data data plc =
     (if plc \<le> 0 \<or> plc \<ge> MPU6050_AXIS_REMAP_TAB_SZ then data
      else
        let remap = mpu6050_gyro_axis_remap_tab ! nat plc;
            tmp = [axis_rx data, axis_ry data, axis_rz data]
        in data\<lparr> axis_rx := mul_s16 (tmp ! nat (src_x remap)) (sign_x remap),
                 axis_ry := mul_s16 (tmp ! nat (src_y remap)) (sign_y remap),
                 axis_rz := mul_s16 (tmp ! nat (src_z remap)) (sign_z remap) \<rparr>)"

subsection \<open>Power control\<close>

text \<open>
  \<^verbatim>\<open>mpu6050_power_ctl\<close>: \<^verbatim>\<open>rc\<close> is initialised to 0 and never assigned;
  \<^verbatim>\<open>msleep\<close> and \<^verbatim>\<open>mpu6050_pinctrl_state\<close> (which only prints) leave the state alone.
\<close>

definition mpu6050_power_ctl :: "mpu6050_sensor \<Rightarrow> bool \<Rightarrow> int \<times> mpu6050_sensor" where
  "mpu6050_power_ctl sensor on =
     (let rc = 0 in
      if on \<and> \<not> power_enabled sensor then (rc, sensor\<lparr> power_enabled := True \<rparr>)
      else if \<not> on \<and> power_enabled sensor then (rc, sensor\<lparr> power_enabled := False \<rparr>)
      else (rc, sensor))"

subsection \<open>Timers\<close>

text \<open>
  \<^verbatim>\<open>hrtimer_start\<close> queues the timer, replacing a queued expiry, and tells whether it
  was queued before; \<^verbatim>\<open>hrtimer_try_to_cancel\<close> dequeues it and returns 1 if it was
  queued, 0 if not.  Its third result, -1 for a callback running at that moment, needs
  two threads and is outside this sequential model.  \<^verbatim>\<open>ktime_set(0, ms * NSEC_PER_MSEC)\<close>
  is the product of a \<^verbatim>\<open>u32\<close> and a \<^verbatim>\<open>long\<close>: the model is that of a 64-bit
  kernel, where it cannot overflow.  Where \<^verbatim>\<open>long\<close> has 32 bits the product wraps
  for delays above 4294 ms; no property below arms a timer for more than 200 ms.
\<close>

definition hrtimer_start :: "nat option \<Rightarrow> nat \<Rightarrow> int \<times> nat option" where
  "hrtimer_start timer ktime = ((if timer = None then 0 else 1), Some ktime)"

definition hrtimer_try_to_cancel :: "nat option \<Rightarrow> int \<times> nat option" where
  "hrtimer_try_to_cancel timer = ((if timer = None then 0 else 1), None)"

definition ktime_set_ms :: "32 word \<Rightarrow> nat" where
  "ktime_set_ms ms = unat ms * NSEC_PER_MSEC"

definition SNS_TYPE_GYRO :: int where
  "SNS_TYPE_GYRO = 0"

definition SNS_TYPE_ACCEL :: int where
  "SNS_TYPE_ACCEL = 1"

definition mpu6050_manage_polling :: "int \<Rightarrow> mpu6050_sensor \<Rightarrow> int \<times> mpu6050_sensor" where
  "mpu6050_manage_polling sns_type sensor =
     (if sns_type = SNS_TYPE_GYRO then
        (if gyro_en sensor \<noteq> 0 then
           (let (ret, t) = hrtimer_start (gyro_timer sensor) (ktime_set_ms (gyro_poll_ms sensor))
            in (ret, sensor\<lparr> gyro_timer := t \<rparr>))
         else
           (let (ret, t) = hrtimer_try_to_cancel (gyro_timer sensor)
            in (ret, sensor\<lparr> gyro_timer := t \<rparr>)))
      else if sns_type = SNS_TYPE_ACCEL then
        (if accel_en sensor \<noteq> 0 then
           (let (ret, t) = hrtimer_start (accel_timer sensor) (ktime_set_ms (accel_poll_ms sensor))
            in (ret, sensor\<lparr> accel_timer := t \<rparr>))
         else
           (let (ret, t) = hrtimer_try_to_cancel (accel_timer sensor)
            in (ret, sensor\<lparr> accel_timer := t \<rparr>)))
      else (- EINVAL, sensor))"

text \<open>
  The timer callbacks run when the timer has expired, so the timer is no longer queued:
  they raise the wake-up flag and let \<open>mpu6050_manage_polling\<close> queue the timer again
  or not.  Both return \<^verbatim>\<open>HRTIMER_NORESTART\<close>.
\<close>

definition gyro_timer_handle :: "mpu6050_sensor \<Rightarrow> mpu6050_sensor" where
  "gyro_timer_handle sensor =
     snd (mpu6050_manage_polling SNS_TYPE_GYRO
            (sensor\<lparr> gyro_timer := None, gyro_wkp_flag := 1 \<rparr>))"

definition accel_timer_handle :: "mpu6050_sensor \<Rightarrow> mpu6050_sensor" where
  "accel_timer_handle sensor =
     snd (mpu6050_manage_polling SNS_TYPE_ACCEL
            (sensor\<lparr> accel_timer := None, accel_wkp_flag := 1 \<rparr>))"

subsection \<open>Polling threads\<close>

text \<open>
  What one turn of the thread's loop sends to the input device: the three
  \<^verbatim>\<open>input_report_abs\<close> values (an \<^verbatim>\<open>int\<close> each, the sign-extended \<^verbatim>\<open>s16\<close>) and the
  two halves of the timestamp; \<open>wake_up_idle\<close> is the argument of
  \<^verbatim>\<open>set_wake_up_idle\<close> when the loop calls it.
\<close>

record input_report =
  abs_0 :: int
  abs_1 :: int
  abs_2 :: int
  syn_time_sec :: nat
  syn_time_nsec :: nat
  wake_up_idle :: "bool option"

text \<open>
  One turn of \<^verbatim>\<open>gyro_poll_thread\<close> after \<^verbatim>\<open>wait_event_interruptible\<close> has returned:
  \<open>should_stop\<close> is \<^verbatim>\<open>kthread_should_stop()\<close>, \<open>timestamp\<close> is
  \<^verbatim>\<open>ktime_get_boottime()\<close> in nanoseconds.  \<open>None\<close> is the \<^verbatim>\<open>break\<close>.
\<close>

definition gyro_poll_iteration ::
  "bool \<Rightarrow> nat \<Rightarrow> mpu6050_sensor \<Rightarrow> mpu6050_sensor \<times> input_report option" where
  "gyro_poll_iteration should_stop timestamp sensor =
     (let s1 = sensor\<lparr> gyro_wkp_flag := 0 \<rparr> in
      if should_stop then (s1, None)
      else
        let idle = (if gyro_delay_change s1
                    then Some (gyro_poll_ms s1 \<le> POLL_MS_100HZ) else None);
            s2 = (if gyro_delay_change s1 then s1\<lparr> gyro_delay_change := False \<rparr> else s1);
            s3 = s2\<lparr> axis := mpu6050_remap_gyro_data (axis s2) (place s2) \<rparr>
        in (s3, Some \<lparr> abs_0 = sint (axis_rx (axis s3)),
                        abs_1 = sint (axis_ry (axis s3)),
                        abs_2 = sint (axis_rz (axis s3)),
                        syn_time_sec = timestamp div 1000000000,
                        syn_time_nsec = timestamp mod 1000000000,
                        wake_up_idle = idle \<rparr>))"

text \<open>
  One turn of \<^verbatim>\<open>accel_poll_thread\<close>.  Between the remap and the reports the loop does
  nothing else: \<open>acc_use_cal\<close> and \<open>acc_cal_params\<close> are not read.
\<close>

definition accel_poll_iteration ::
  "bool \<Rightarrow> nat \<Rightarrow> mpu6050_sensor \<Rightarrow> mpu6050_sensor \<times> input_report option" where
  "accel_poll_iteration should_stop timestamp sensor =
     (let s1 = sensor\<lparr> accel_wkp_flag := 0 \<rparr> in
      if should_stop then (s1, None)
      else
        let idle = (if accel_delay_change s1
                    then Some (accel_poll_ms s1 \<le> POLL_MS_100HZ) else None);
            s2 = (if accel_delay_change s1 then s1\<lparr> accel_delay_change := False \<rparr> else s1);
            s3 = s2\<lparr> axis := mpu6050_remap_accel_data (axis s2) (place s2) \<rparr>
        in (s3, Some \<lparr> abs_0 = sint (axis_x (axis s3)),
                        abs_1 = sint (axis_y (axis s3)),
                        abs_2 = sint (axis_z (axis s3)),
                        syn_time_sec = timestamp div 1000000000,
                        syn_time_nsec = timestamp mod 1000000000,
                        wake_up_idle = idle \<rparr>))"

subsection \<open>Engines and context\<close>

definition mpu6050_set_lpa_freq :: "mpu6050_sensor \<Rightarrow> int \<Rightarrow> int \<times> mpu6050_sensor" where
  "mpu6050_set_lpa_freq sensor freq = (0, sensor\<lparr> cfg := (cfg sensor)\<lparr> lpa_freq := freq \<rparr> \<rparr>)"

text \<open>
  \<^verbatim>\<open>mpu6050_switch_engine\<close> computes the local \<^verbatim>\<open>mgmt_1\<close>, writes it nowhere and
  returns 0 on every path; the mask is one of the two standby masks of the header.
\<close>

datatype engine_mask = BIT_PWR_GYRO_STBY_MASK | BIT_PWR_ACCEL_STBY_MASK

definition mpu6050_switch_engine :: "mpu6050_sensor \<Rightarrow> bool \<Rightarrow> engine_mask \<Rightarrow> int" where
  "mpu6050_switch_engine sensor en msk = 0"

text \<open>
  \<^verbatim>\<open>cancel_work_sync\<close> on the pending resume work leaves it not pending.
\<close>

definition cancel_resume_work :: "mpu6050_sensor \<Rightarrow> mpu6050_sensor" where
  "cancel_resume_work sensor =
     (if resume_work sensor then sensor\<lparr> resume_work := False \<rparr> else sensor)"

definition mpu6050_gyro_enable :: "mpu6050_sensor \<Rightarrow> bool \<Rightarrow> int \<times> mpu6050_sensor" where
  "mpu6050_gyro_enable sensor on =
     (if is_asleep (cfg sensor) then (- EINVAL, sensor)
      else if on then
        (let ret = mpu6050_switch_engine sensor True BIT_PWR_GYRO_STBY_MASK in
         if ret \<noteq> 0 then (ret, sensor)
         else (0, sensor\<lparr> cfg := (cfg sensor)\<lparr> gyro_enable := True, enable := True \<rparr> \<rparr>))
      else
        (let s1 = cancel_resume_work sensor;
             ret = mpu6050_switch_engine s1 False BIT_PWR_GYRO_STBY_MASK in
         if ret \<noteq> 0 then (ret, s1)
         else
           let s2 = s1\<lparr> cfg := (cfg s1)\<lparr> gyro_enable := False \<rparr> \<rparr> in
           if \<not> accel_enable (cfg s2)
           then (0, s2\<lparr> cfg := (cfg s2)\<lparr> enable := False \<rparr> \<rparr>)
           else (0, s2)))"

definition mpu6050_accel_enable :: "mpu6050_sensor \<Rightarrow> bool \<Rightarrow> int \<times> mpu6050_sensor" where
  "mpu6050_accel_enable sensor on =
     (if is_asleep (cfg sensor) then (- EINVAL, sensor)
      else if on then
        (let ret = mpu6050_switch_engine sensor True BIT_PWR_ACCEL_STBY_MASK in
         if ret \<noteq> 0 then (ret, sensor)
         else (0, sensor\<lparr> cfg := (cfg sensor)\<lparr> accel_enable := True, enable := True \<rparr> \<rparr>))
      else
        (let s1 = cancel_resume_work sensor;
             ret = mpu6050_switch_engine s1 False BIT_PWR_ACCEL_STBY_MASK in
         if ret \<noteq> 0 then (ret, s1)
         else
           let s2 = s1\<lparr> cfg := (cfg s1)\<lparr> accel_enable := False \<rparr> \<rparr> in
           if \<not> gyro_enable (cfg s2)
           then (0, s2\<lparr> cfg := (cfg s2)\<lparr> enable := False \<rparr> \<rparr>)
           else (0, s2)))"

definition mpu6050_restore_context :: "mpu6050_sensor \<Rightarrow> int \<times> mpu6050_sensor" where
  "mpu6050_restore_context sensor =
     (let (ret, s1) = mpu6050_set_lpa_freq sensor (lpa_freq (cfg sensor)) in (ret, s1))"

text \<open>
  \<^verbatim>\<open>mpu6050_reset_chip\<close> loops over a local value (at most
  \<^verbatim>\<open>MPU6050_RESET_RETRY_CNT\<close> times), sleeps, and touches nothing of the sensor.
\<close>

definition mpu6050_reset_chip :: "mpu6050_sensor \<Rightarrow> mpu6050_sensor" where
  "mpu6050_reset_chip sensor = sensor"

subsection \<open>Sample rate\<close>

text \<open>
  \<^verbatim>\<open>mpu6050_config_sample_rate\<close>.  The product \<^verbatim>\<open>ODR * delay_ms\<close> is a \<^verbatim>\<open>u32\<close>
  product; the quotient by \<^verbatim>\<open>MSEC_PER_SEC\<close> less one is cast to \<^verbatim>\<open>u8\<close>, which
  keeps the low 8 bits (the same bits whether the subtraction is done in 32 or 64 bits).
  The division is C's integer division.
\<close>

definition mpu6050_config_sample_rate ::
  "mpu_consts \<Rightarrow> mpu6050_sensor \<Rightarrow> int \<times> mpu6050_sensor" where
  "mpu6050_config_sample_rate c sensor =
     (if is_asleep (cfg sensor) then (- EINVAL, sensor)
      else
        let delay_ms = (if accel_poll_ms sensor \<le> gyro_poll_ms sensor
                        then accel_poll_ms sensor else gyro_poll_ms sensor);
            dv = (if lpf (cfg sensor) \<noteq> MPU_DLPF_256HZ_NOLPF2
                     \<and> lpf (cfg sensor) \<noteq> MPU_DLPF_RESERVED then
                    (let d1 = (if delay_ms > DELAY_MS_MAX_DLPF c
                               then DELAY_MS_MAX_DLPF c else delay_ms);
                         d2 = (if d1 < DELAY_MS_MIN_DLPF c
                               then DELAY_MS_MIN_DLPF c else d1)
                     in (ucast ((ODR_DLPF_ENA c * d2) div MSEC_PER_SEC - 1) :: 8 word))
                  else
                    (let d1 = (if delay_ms > DELAY_MS_MAX_NODLPF c
                               then DELAY_MS_MAX_NODLPF c else delay_ms);
                         d2 = (if d1 < DELAY_MS_MIN_NODLPF c
                               then DELAY_MS_MIN_NODLPF c else d1)
                     in (ucast ((ODR_DLPF_DIS c * d2) div MSEC_PER_SEC - 1) :: 8 word)))
        in if rate_div (cfg sensor) = dv then (0, sensor)
           else (0, sensor\<lparr> cfg := (cfg sensor)\<lparr> rate_div := dv \<rparr> \<rparr>))"

text \<open>
  \<^verbatim>\<open>mpu6050_get_sample_interval\<close>: a \<^verbatim>\<open>u64\<close> number of nanoseconds, at most
  256 ms, so nothing wraps.
\<close>

definition mpu6050_get_sample_interval :: "mpu6050_sensor \<Rightarrow> nat" where
  "mpu6050_get_sample_interval sensor =
     (if lpf (cfg sensor) = MPU_DLPF_256HZ_NOLPF2 \<or> lpf (cfg sensor) = MPU_DLPF_RESERVED
      then ((unat (rate_div (cfg sensor)) + 1) * NSEC_PER_MSEC) div 8
      else (unat (rate_div (cfg sensor)) + 1) * NSEC_PER_MSEC)"

subsection \<open>Enabling and disabling a channel\<close>

text \<open>
  \<^verbatim>\<open>mpu6050_gyro_set_enable\<close>, in three pieces: the code from the call of
  \<^verbatim>\<open>mpu6050_gyro_enable(sensor, true)\<close> to the end of the enable branch, the disable
  branch, and the function itself, which powers the chip up first when it is off.
  A \<^verbatim>\<open>goto exit\<close> is the return of the pair at that point.
\<close>

definition gyro_engine_on :: "mpu_consts \<Rightarrow> mpu6050_sensor \<Rightarrow> int \<times> mpu6050_sensor" where
  "gyro_engine_on c sensor =
     (let (ret, s1) = mpu6050_gyro_enable sensor True in
      if ret \<noteq> 0 then (- EBUSY, s1)
      else
        let (ret, s2) = mpu6050_config_sample_rate c s1;
            s3 = (if \<not> batch_gyro s2
                  then s2\<lparr> gyro_timer :=
                         snd (hrtimer_start (gyro_timer s2) (ktime_set_ms (gyro_poll_ms s2))) \<rparr>
                  else s2)
        in (ret, s3\<lparr> gyro_en := 1 \<rparr>))"

definition gyro_engine_off :: "mpu6050_sensor \<Rightarrow> int \<times> mpu6050_sensor" where
  "gyro_engine_off sensor =
     (let s1 = sensor\<lparr> gyro_en := 0 \<rparr>;
          s2 = (if \<not> batch_gyro s1
                then s1\<lparr> gyro_timer := snd (hrtimer_try_to_cancel (gyro_timer s1)) \<rparr>
                else s1);
          (ret, s3) = mpu6050_gyro_enable s2 False
      in if ret \<noteq> 0 then (- EBUSY, s3)
         else if \<not> accel_enable (cfg s3) \<and> \<not> gyro_enable (cfg s3)
         then (ret, snd (mpu6050_power_ctl s3 False))
         else (ret, s3))"

definition mpu6050_gyro_set_enable ::
  "mpu_consts \<Rightarrow> mpu6050_sensor \<Rightarrow> bool \<Rightarrow> int \<times> mpu6050_sensor" where
  "mpu6050_gyro_set_enable c sensor en =
     (if en then
        (if \<not> power_enabled sensor then
           (let (ret, s1) = mpu6050_power_ctl sensor True in
            if ret < 0 then (ret, s1)
            else
              let (ret, s2) = mpu6050_restore_context (mpu6050_reset_chip s1) in
              if ret < 0 then (ret, s2)
              else gyro_engine_on c s2)
         else gyro_engine_on c sensor)
      else gyro_engine_off sensor)"

text \<open>\<^verbatim>\<open>mpu6050_accel_set_enable\<close>, cut the same way.\<close>

definition accel_engine_on :: "mpu_consts \<Rightarrow> mpu6050_sensor \<Rightarrow> int \<times> mpu6050_sensor" where
  "accel_engine_on c sensor =
     (let (ret, s1) = mpu6050_accel_enable sensor True in
      if ret \<noteq> 0 then (- EBUSY, s1)
      else
        let (ret, s2) = mpu6050_config_sample_rate c s1;
            s3 = (if \<not> batch_accel s2
                  then s2\<lparr> accel_timer :=
                         snd (hrtimer_start (accel_timer s2) (ktime_set_ms (accel_poll_ms s2))) \<rparr>
                  else s2)
        in (ret, s3\<lparr> accel_en := 1 \<rparr>))"

definition accel_engine_off :: "mpu6050_sensor \<Rightarrow> int \<times> mpu6050_sensor" where
  "accel_engine_off sensor =
     (let s1 = sensor\<lparr> accel_en := 0 \<rparr>;
          s2 = (if \<not> batch_accel s1
                then s1\<lparr> accel_timer := snd (hrtimer_try_to_cancel (accel_timer s1)) \<rparr>
                else s1);
          (ret, s3) = mpu6050_accel_enable s2 False
      in if ret \<noteq> 0 then (- EBUSY, s3)
         else if \<not> accel_enable (cfg s3) \<and> \<not> gyro_enable (cfg s3)
         then (ret, snd (mpu6050_power_ctl s3 False))
         else (ret, s3))"

definition mpu6050_accel_set_enable ::
  "mpu_consts \<Rightarrow> mpu6050_sensor \<Rightarrow> bool \<Rightarrow> int \<times> mpu6050_sensor" where
  "mpu6050_accel_set_enable c sensor en =
     (if en then
        (if \<not> power_enabled sensor then
           (let (ret, s1) = mpu6050_power_ctl sensor True in
            if ret < 0 then (ret, s1)
            else
              let (ret, s2) = mpu6050_restore_context (mpu6050_reset_chip s1) in
              if ret < 0 then (ret, s2)
              else accel_engine_on c s2)
         else accel_engine_on c sensor)
      else accel_engine_off sensor)"

subsection \<open>Poll delay\<close>

text \<open>
  \<^verbatim>\<open>mpu6050_gyro_set_poll_delay\<close>: \<^verbatim>\<open>ret\<close> is initialised to 0 and never assigned.
  The \<^verbatim>\<open>unsigned long\<close> delay is a natural number; it is clamped before it is stored
  in the \<^verbatim>\<open>u32\<close>.  After the test of \<open>gyro_en\<close> the function has nothing left but the
  label \<^verbatim>\<open>exit\<close>, so both outcomes of the test are the same state.
\<close>

definition mpu6050_gyro_set_poll_delay :: "mpu6050_sensor \<Rightarrow> nat \<Rightarrow> int \<times> mpu6050_sensor" where
  "mpu6050_gyro_set_poll_delay sensor delay =
     (let ret = 0;
          d1 = (if delay < MPU6050_GYRO_MIN_POLL_INTERVAL_MS
                then MPU6050_GYRO_MIN_POLL_INTERVAL_MS else delay);
          d2 = (if d1 > MPU6050_GYRO_MAX_POLL_INTERVAL_MS
                then MPU6050_GYRO_MAX_POLL_INTERVAL_MS else d1)
      in if unat (gyro_poll_ms sensor) = d2 then (ret, sensor)
         else
           let s1 = sensor\<lparr> gyro_delay_change := True, gyro_poll_ms := of_nat d2 \<rparr>
           in if gyro_en s1 = 0 then (ret, s1) else (ret, s1))"

text \<open>
  \<^verbatim>\<open>mpu6050_accel_set_poll_delay\<close>: \<^verbatim>\<open>int ret;\<close> has no initialiser, and the two
  \<^verbatim>\<open>goto exit\<close> before the first assignment return it as it is.  The result is
  \<open>None\<close> where the function returns that indeterminate value and \<open>Some r\<close> where
  \<^verbatim>\<open>ret\<close> has been assigned.
\<close>

definition mpu6050_accel_set_poll_delay ::
  "mpu_consts \<Rightarrow> mpu6050_sensor \<Rightarrow> nat \<Rightarrow> int option \<times> mpu6050_sensor" where
  "mpu6050_accel_set_poll_delay c sensor delay =
     (let d1 = (if delay < MPU6050_ACCEL_MIN_POLL_INTERVAL_MS
                then MPU6050_ACCEL_MIN_POLL_INTERVAL_MS else delay);
          d2 = (if d1 > MPU6050_ACCEL_MAX_POLL_INTERVAL_MS
                then MPU6050_ACCEL_MAX_POLL_INTERVAL_MS else d1)
      in if unat (accel_poll_ms sensor) = d2 then (None, sensor)
         else
           let s1 = sensor\<lparr> accel_delay_change := True, accel_poll_ms := of_nat d2 \<rparr>
           in if accel_en s1 = 0 then (None, s1)
              else if use_poll s1 then
                (let (ret, t1) = hrtimer_try_to_cancel (accel_timer s1);
                     (r2, t2) = hrtimer_start t1 (ktime_set_ms (accel_poll_ms s1))
                 in (Some ret, s1\<lparr> accel_timer := t2 \<rparr>))
              else
                (let (ret, s2) = mpu6050_config_sample_rate c s1 in (Some ret, s2)))"

subsection \<open>Probe\<close>

text \<open>
  \<^verbatim>\<open>mpu6050_init_config\<close>: after the \<^verbatim>\<open>memset\<close> every field of the configuration is
  zero; then the filter, the divider and the cleared enable bits are assigned.  (The
  full-scale ranges and the interrupt pin configuration it also assigns are not part of
  the record.)  The filter value of an all-zero configuration is overwritten at once.
\<close>

definition mpu6050_init_config :: "mpu_consts \<Rightarrow> mpu6050_sensor \<Rightarrow> int \<times> mpu6050_sensor" where
  "mpu6050_init_config c sensor =
     (if is_asleep (cfg sensor) then (- EINVAL, sensor)
      else
        let s1 = mpu6050_reset_chip sensor;
            data = (ucast (ODR_DLPF_ENA c div INIT_FIFO_RATE c - 1) :: 8 word)
        in (0, s1\<lparr> cfg := \<lparr> lpf = MPU_DLPF_42HZ, rate_div = data, is_asleep = False,
                            enable = False, accel_enable = False, gyro_enable = False,
                            lpa_freq = 0 \<rparr> \<rparr>))"

text \<open>
  The memory \<^verbatim>\<open>devm_kzalloc\<close> returns: all zero.  \<open>plc\<close> is the placement the
  platform data carries.
\<close>

definition kzalloc_sensor :: "int \<Rightarrow> mpu6050_sensor" where
  "kzalloc_sensor plc =
     \<lparr> cfg = \<lparr> lpf = MPU_DLPF_256HZ_NOLPF2, rate_div = 0, is_asleep = False,
               enable = False, accel_enable = False, gyro_enable = False, lpa_freq = 0 \<rparr>,
       axis = \<lparr> axis_x = 0, axis_y = 0, axis_z = 0, axis_rx = 0, axis_ry = 0, axis_rz = 0 \<rparr>,
       place = plc, gyro_timer = None, accel_timer = None, resume_work = False,
       gyro_poll_ms = 0, accel_poll_ms = 0, accel_en = 0, gyro_en = 0,
       use_poll = False, batch_accel = False, batch_gyro = False,
       acc_cal_params = (0, 0, 0), acc_use_cal = False, power_enabled = False,
       gyro_wkp_flag = 0, accel_wkp_flag = 0,
       gyro_delay_change = False, accel_delay_change = False \<rparr>"

text \<open>
  \<^verbatim>\<open>mpu6050_probe\<close> on the path where every allocation and registration of the kernel
  succeeds: the assignments to the sensor, in the order of the source.  The chip type
  check and the engine initialisation change nothing of the sensor.
\<close>

definition mpu6050_probe :: "mpu_consts \<Rightarrow> int \<Rightarrow> int \<times> mpu6050_sensor" where
  "mpu6050_probe c plc =
     (let s0 = kzalloc_sensor plc;
          (ret, s1) = mpu6050_power_ctl s0 True
      in if ret \<noteq> 0 then (ret, s1)
         else
           let (ret, s2) = mpu6050_set_lpa_freq s1 (MPU6050_LPA_5HZ c)
           in if ret \<noteq> 0 then (ret, snd (mpu6050_power_ctl s2 False))
              else
                let s3 = s2\<lparr> cfg := (cfg s2)\<lparr> is_asleep := False \<rparr>,
                             accel_en := 0, gyro_en := 0 \<rparr>;
                    (ret, s4) = mpu6050_init_config c s3
                in if ret \<noteq> 0 then (ret, snd (mpu6050_power_ctl s4 False))
                   else
                     let s5 = s4\<lparr> accel_poll_ms := MPU6050_ACCEL_DEFAULT_POLL_INTERVAL_MS,
                                  gyro_poll_ms := MPU6050_GYRO_DEFAULT_POLL_INTERVAL_MS,
                                  acc_use_cal := False,
                                  use_poll := True,
                                  gyro_timer := None, accel_timer := None,
                                  gyro_wkp_flag := 0, accel_wkp_flag := 0 \<rparr>
                     in mpu6050_power_ctl s5 False)"

subsection \<open>Sequences of calls\<close>

text \<open>
  The calls the sensor class device makes: \<^verbatim>\<open>sensors_enable\<close> with a zero or non-zero
  argument and \<^verbatim>\<open>sensors_poll_delay\<close>, on either channel.  \<open>step\<close> runs one call and
  drops its return value; \<open>trace\<close> lists the state after each call of a sequence.
\<close>

datatype channel = Accel | Gyro

datatype call = Enable channel | Disable channel | SetInterval channel nat

fun step :: "mpu_consts \<Rightarrow> mpu6050_sensor \<Rightarrow> call \<Rightarrow> mpu6050_sensor" where
  "step c s (Enable Accel) = snd (mpu6050_accel_set_enable c s True)"
| "step c s (Enable Gyro) = snd (mpu6050_gyro_set_enable c s True)"
| "step c s (Disable Accel) = snd (mpu6050_accel_set_enable c s False)"
| "step c s (Disable Gyro) = snd (mpu6050_gyro_set_enable c s False)"
| "step c s (SetInterval Accel d) = snd (mpu6050_accel_set_poll_delay c s d)"
| "step c s (SetInterval Gyro d) = snd (mpu6050_gyro_set_poll_delay s d)"

fun trace :: "mpu_consts \<Rightarrow> mpu6050_sensor \<Rightarrow> call list \<Rightarrow> mpu6050_sensor list" where
  "trace c s [] = []"
| "trace c s (x # xs) = step c s x # trace c (step c s x) xs"

text \<open>A channel is in an enabled state when its enable counter is not zero.\<close>

fun channel_enabled :: "mpu6050_sensor \<Rightarrow> channel \<Rightarrow> bool" where
  "channel_enabled s Accel = (accel_en s \<noteq> 0)"
| "channel_enabled s Gyro = (gyro_en s \<noteq> 0)"

definition power_consistent :: "mpu6050_sensor \<Rightarrow> bool" where
  "power_consistent s = (power_enabled s = (channel_enabled s Accel \<or> channel_enabled s Gyro))"

text \<open>
  What the entry points keep true of a sensor that is awake: the power flag and the two
  engine bits of the configuration follow the enable counters.
\<close>

definition driver_inv :: "mpu6050_sensor \<Rightarrow> bool" where
  "driver_inv s =
     (\<not> is_asleep (cfg s)
      \<and> power_enabled s = (accel_en s \<noteq> 0 \<or> gyro_en s \<noteq> 0)
      \<and> accel_enable (cfg s) = (accel_en s \<noteq> 0)
      \<and> gyro_enable (cfg s) = (gyro_en s \<noteq> 0))"

text \<open>
  The two \<^verbatim>\<open>sensors_enable\<close> callbacks, \<^verbatim>\<open>mpu6050_accel_cdev_enable\<close> and
  \<^verbatim>\<open>mpu6050_gyro_cdev_enable\<close>, by channel.
\<close>

definition sensors_enable ::
  "mpu_consts \<Rightarrow> channel \<Rightarrow> mpu6050_sensor \<Rightarrow> bool \<Rightarrow> int \<times> mpu6050_sensor" where
  "sensors_enable c ch s en =
     (case ch of Accel \<Rightarrow> mpu6050_accel_set_enable c s en
               | Gyro \<Rightarrow> mpu6050_gyro_set_enable c s en)"

subsection \<open>Concrete sensors\<close>

text \<open>
  The sensor after a probe with placement 0; the same sensor with the chip marked asleep;
  with the gyroscope, and with the accelerometer, enabled from there; and with a
  calibration bias of 100 on the first axis switched on over a reading of 1000.
\<close>

definition probed_sensor :: mpu6050_sensor where
  "probed_sensor = snd (mpu6050_probe mpu6050_h 0)"

definition asleep_sensor :: mpu6050_sensor where
  "asleep_sensor = probed_sensor\<lparr> cfg := (cfg probed_sensor)\<lparr> is_asleep := True \<rparr> \<rparr>"

definition gyro_running :: mpu6050_sensor where
  "gyro_running = snd (mpu6050_gyro_set_enable mpu6050_h probed_sensor True)"

definition accel_running :: mpu6050_sensor where
  "accel_running = snd (mpu6050_accel_set_enable mpu6050_h probed_sensor True)"

definition calibrated_sensor :: mpu6050_sensor where
  "calibrated_sensor =
     probed_sensor\<lparr> acc_use_cal := True, acc_cal_params := (100, 0, 0),
                    axis := (axis probed_sensor)\<lparr> axis_x := 1000 \<rparr> \<rparr>"

definition nolpf_sensor :: mpu6050_sensor where
  "nolpf_sensor =
     probed_sensor\<lparr> cfg := (cfg probed_sensor)\<lparr> lpf := MPU_DLPF_256HZ_NOLPF2 \<rparr>,
                    accel_poll_ms := 50, gyro_poll_ms := 50 \<rparr>"

definition min_reading :: axis_data where
  "min_reading =
     \<lparr> axis_x = - 32768, axis_y = 0, axis_z = 0, axis_rx = 0, axis_ry = 0, axis_rz = 0 \<rparr>"

definition one_axis_reading :: axis_data where
  "one_axis_reading =
     \<lparr> axis_x = 5, axis_y = 0, axis_z = 0, axis_rx = 0, axis_ry = - 7, axis_rz = 0 \<rparr>"

definition min_y_reading :: axis_data where
  "min_y_reading =
     \<lparr> axis_x = 0, axis_y = - 32768, axis_z = 0, axis_rx = 0, axis_ry = 0, axis_rz = 0 \<rparr>"

subsection \<open>Vocabulary of the properties\<close>

text \<open>
  The three axes of each channel as a list, the number of non-zero axes, and what a row
  of a remap table asks for: each output axis is the row's sign times the source axis the
  row names, as an integer product (\<open>table_product\<close>) and as a 16-bit product
  (\<open>table_product16\<close>).
\<close>

definition accel_axes :: "axis_data \<Rightarrow> 16 word list" where
  "accel_axes d = [axis_x d, axis_y d, axis_z d]"

definition gyro_axes :: "axis_data \<Rightarrow> 16 word list" where
  "gyro_axes d = [axis_rx d, axis_ry d, axis_rz d]"

definition nonzero_axes :: "16 word list \<Rightarrow> nat" where
  "nonzero_axes vs = length (filter (\<lambda>v. v \<noteq> 0) vs)"

definition table_product :: "sensor_axis_remap \<Rightarrow> 16 word list \<Rightarrow> int list" where
  "table_product r vs =
     [sign_x r * sint (vs ! nat (src_x r)),
      sign_y r * sint (vs ! nat (src_y r)),
      sign_z r * sint (vs ! nat (src_z r))]"

definition table_product16 :: "sensor_axis_remap \<Rightarrow> 16 word list \<Rightarrow> 16 word list" where
  "table_product16 r vs =
     [word_of_int (sign_x r) * vs ! nat (src_x r),
      word_of_int (sign_y r) * vs ! nat (src_y r),
      word_of_int (sign_z r) * vs ! nat (src_z r)]"

text \<open>
  A row negates the least reading when one of its signs is \<open>-1\<close> and the source axis
  it names there holds \<open>-32768\<close>, the one \<^verbatim>\<open>s16\<close> value whose negation is not an
  \<^verbatim>\<open>s16\<close>.
\<close>

definition negates_min :: "sensor_axis_remap \<Rightarrow> 16 word list \<Rightarrow> bool" where
  "negates_min r vs =
     ((sign_x r = - 1 \<and> sint (vs ! nat (src_x r)) = - 32768)
      \<or> (sign_y r = - 1 \<and> sint (vs ! nat (src_y r)) = - 32768)
      \<or> (sign_z r = - 1 \<and> sint (vs ! nat (src_z r)) = - 32768))"

text \<open>
  The clamp of a delay to a mode's range, in milliseconds; the condition on a mode's
  rate and range under which the divider fits the 8-bit register (the quotient
  \<open>odr * delay / 1000\<close> stays between 1 and 256 over the range); and the divider
  expression of \<open>mpu6050_config_sample_rate\<close> for one mode.
\<close>

definition clamp_ms :: "32 word \<Rightarrow> 32 word \<Rightarrow> 32 word \<Rightarrow> nat" where
  "clamp_ms lo hi v = max (unat lo) (min (unat hi) (unat v))"

definition divider_fits :: "32 word \<Rightarrow> 32 word \<Rightarrow> 32 word \<Rightarrow> bool" where
  "divider_fits odr lo hi =
     (lo \<le> hi \<and> 1000 \<le> unat odr * unat lo \<and> unat odr * unat hi \<le> 256000)"

definition code_div :: "32 word \<Rightarrow> 32 word \<Rightarrow> 32 word \<Rightarrow> 32 word \<Rightarrow> 8 word" where
  "code_div odr lo hi delay_ms =
     (let d1 = (if delay_ms > hi then hi else delay_ms);
          d2 = (if d1 < lo then lo else d1)
      in ucast ((odr * d2) div MSEC_PER_SEC - 1))"

section \<open>Properties\<close>

subsection \<open>Basic facts about the collaborators\<close>

lemma restore_context_id: "mpu6050_restore_context s = (0, s)"
  by (simp add: mpu6050_restore_context_def mpu6050_set_lpa_freq_def)

lemma power_ctl_eq: "mpu6050_power_ctl s on = (0, s\<lparr> power_enabled := on \<rparr>)"
  by (cases on) (auto simp: mpu6050_power_ctl_def)

lemma power_enabled_upd_same: "power_enabled s = b \<Longrightarrow> s\<lparr> power_enabled := b \<rparr> = s"
  by auto

lemma gyro_set_enable_on:
  "mpu6050_gyro_set_enable c s True = gyro_engine_on c (s\<lparr> power_enabled := True \<rparr>)"
  by (simp add: mpu6050_gyro_set_enable_def power_ctl_eq restore_context_id
      mpu6050_reset_chip_def power_enabled_upd_same)

lemma accel_set_enable_on:
  "mpu6050_accel_set_enable c s True = accel_engine_on c (s\<lparr> power_enabled := True \<rparr>)"
  by (simp add: mpu6050_accel_set_enable_def power_ctl_eq restore_context_id
      mpu6050_reset_chip_def power_enabled_upd_same)

lemma config_sample_rate_keeps:
  "is_asleep (cfg (snd (mpu6050_config_sample_rate c s))) = is_asleep (cfg s)"
  "accel_enable (cfg (snd (mpu6050_config_sample_rate c s))) = accel_enable (cfg s)"
  "gyro_enable (cfg (snd (mpu6050_config_sample_rate c s))) = gyro_enable (cfg s)"
  "power_enabled (snd (mpu6050_config_sample_rate c s)) = power_enabled s"
  "accel_en (snd (mpu6050_config_sample_rate c s)) = accel_en s"
  "gyro_en (snd (mpu6050_config_sample_rate c s)) = gyro_en s"
  "batch_gyro (snd (mpu6050_config_sample_rate c s)) = batch_gyro s"
  "batch_accel (snd (mpu6050_config_sample_rate c s)) = batch_accel s"
  by (simp_all add: mpu6050_config_sample_rate_def Let_def)

subsection \<open>The power flag follows the channels\<close>

lemma inv_gyro_on: "driver_inv s \<Longrightarrow> driver_inv (snd (mpu6050_gyro_set_enable c s True))"
  by (simp add: gyro_set_enable_on gyro_engine_on_def mpu6050_gyro_enable_def
      mpu6050_switch_engine_def driver_inv_def Let_def split_beta config_sample_rate_keeps)

lemma inv_accel_on: "driver_inv s \<Longrightarrow> driver_inv (snd (mpu6050_accel_set_enable c s True))"
  by (simp add: accel_set_enable_on accel_engine_on_def mpu6050_accel_enable_def
      mpu6050_switch_engine_def driver_inv_def Let_def split_beta config_sample_rate_keeps)

lemma inv_gyro_off: "driver_inv s \<Longrightarrow> driver_inv (snd (mpu6050_gyro_set_enable c s False))"
  by (auto simp add: mpu6050_gyro_set_enable_def gyro_engine_off_def mpu6050_gyro_enable_def
      mpu6050_switch_engine_def driver_inv_def Let_def split_beta power_ctl_eq
      cancel_resume_work_def)

lemma inv_accel_off: "driver_inv s \<Longrightarrow> driver_inv (snd (mpu6050_accel_set_enable c s False))"
  by (auto simp add: mpu6050_accel_set_enable_def accel_engine_off_def mpu6050_accel_enable_def
      mpu6050_switch_engine_def driver_inv_def Let_def split_beta power_ctl_eq
      cancel_resume_work_def)

lemma inv_gyro_delay: "driver_inv s \<Longrightarrow> driver_inv (snd (mpu6050_gyro_set_poll_delay s d))"
  by (simp add: mpu6050_gyro_set_poll_delay_def driver_inv_def Let_def)

lemma inv_accel_delay:
  "driver_inv s \<Longrightarrow> driver_inv (snd (mpu6050_accel_set_poll_delay c s d))"
  by (simp add: mpu6050_accel_set_poll_delay_def driver_inv_def Let_def split_beta
      config_sample_rate_keeps)

lemma inv_step: "driver_inv s \<Longrightarrow> driver_inv (step c s x)"
  by (cases "(c, s, x)" rule: step.cases)
     (simp_all add: inv_gyro_on inv_accel_on inv_gyro_off inv_accel_off inv_gyro_delay
        inv_accel_delay)

lemma inv_trace: "driver_inv s \<Longrightarrow> t \<in> set (trace c s xs) \<Longrightarrow> driver_inv t"
proof (induction xs arbitrary: s)
  case Nil
  then show ?case by simp
next
  case (Cons x xs)
  from Cons.prems(2) have "t = step c s x \<or> t \<in> set (trace c (step c s x) xs)"
    by simp
  then show ?case
  proof
    assume "t = step c s x"
    with Cons.prems(1) show ?thesis by (simp add: inv_step)
  next
    assume "t \<in> set (trace c (step c s x) xs)"
    with Cons.IH [OF inv_step [OF Cons.prems(1)]] show ?thesis .
  qed
qed

lemma probe_ok: "fst (mpu6050_probe c plc) = 0"
  by (simp add: mpu6050_probe_def power_ctl_eq mpu6050_set_lpa_freq_def
      mpu6050_init_config_def Let_def mpu6050_reset_chip_def kzalloc_sensor_def)

lemma inv_probe: "driver_inv (snd (mpu6050_probe c plc))"
  by (simp add: mpu6050_probe_def power_ctl_eq mpu6050_set_lpa_freq_def
      mpu6050_init_config_def Let_def mpu6050_reset_chip_def kzalloc_sensor_def
      driver_inv_def)

lemma inv_consistent: "driver_inv s \<Longrightarrow> power_consistent s"
  by (simp add: driver_inv_def power_consistent_def)

text \<open>
  Claim C1.  Start from the sensor a successful probe leaves, whatever the placement and
  the header's constants, and run any finite sequence of enable, disable and
  set-interval calls on the two channels: in the state after each call (and in the
  starting state) the power flag is true exactly when the accelerometer or the gyroscope
  is enabled.
\<close>

theorem power_flag_follows_channels:
  "power_consistent (snd (mpu6050_probe c plc)) \<and>
   (\<forall>s \<in> set (trace c (snd (mpu6050_probe c plc)) calls). power_consistent s)"
  using inv_trace [OF inv_probe] inv_probe inv_consistent by blast

theorem power_flag_follows_channels_witness:
  "step mpu6050_h (snd (mpu6050_probe mpu6050_h 2)) (Enable Gyro)
     \<in> set (trace mpu6050_h (snd (mpu6050_probe mpu6050_h 2))
              [Enable Gyro, SetInterval Gyro 5, Enable Accel, Disable Gyro])
   \<and> power_consistent (step mpu6050_h (snd (mpu6050_probe mpu6050_h 2)) (Enable Gyro))"
  using power_flag_follows_channels
          [of mpu6050_h 2 "[Enable Gyro, SetInterval Gyro 5, Enable Accel, Disable Gyro]"]
  by simp

subsection \<open>Concrete sensors, evaluated\<close>

lemma probed_sensor_eq:
  "probed_sensor =
     \<lparr> cfg = \<lparr> lpf = MPU_DLPF_42HZ, rate_div = 19, is_asleep = False,
               enable = False, accel_enable = False, gyro_enable = False, lpa_freq = 0 \<rparr>,
       axis = \<lparr> axis_x = 0, axis_y = 0, axis_z = 0, axis_rx = 0, axis_ry = 0, axis_rz = 0 \<rparr>,
       place = 0, gyro_timer = None, accel_timer = None, resume_work = False,
       gyro_poll_ms = 200, accel_poll_ms = 200, accel_en = 0, gyro_en = 0,
       use_poll = True, batch_accel = False, batch_gyro = False,
       acc_cal_params = (0, 0, 0), acc_use_cal = False, power_enabled = False,
       gyro_wkp_flag = 0, accel_wkp_flag = 0,
       gyro_delay_change = False, accel_delay_change = False \<rparr>"
  by (simp add: probed_sensor_def mpu6050_probe_def power_ctl_eq mpu6050_set_lpa_freq_def
      mpu6050_init_config_def Let_def mpu6050_reset_chip_def kzalloc_sensor_def mpu6050_h_def
      MPU6050_ACCEL_DEFAULT_POLL_INTERVAL_MS_def MPU6050_GYRO_DEFAULT_POLL_INTERVAL_MS_def)

lemma gyro_running_eq:
  "gyro_running =
     probed_sensor\<lparr> cfg := (cfg probed_sensor)\<lparr> rate_div := 199, gyro_enable := True,
                                                  enable := True \<rparr>,
                    gyro_timer := Some 200000000, gyro_en := 1, power_enabled := True \<rparr>"
  by (simp add: gyro_running_def gyro_set_enable_on gyro_engine_on_def mpu6050_gyro_enable_def
      mpu6050_switch_engine_def Let_def mpu6050_config_sample_rate_def probed_sensor_eq
      mpu6050_h_def hrtimer_start_def ktime_set_ms_def NSEC_PER_MSEC_def MSEC_PER_SEC_def)

lemma accel_running_eq:
  "accel_running =
     probed_sensor\<lparr> cfg := (cfg probed_sensor)\<lparr> rate_div := 199, accel_enable := True,
                                                  enable := True \<rparr>,
                    accel_timer := Some 200000000, accel_en := 1, power_enabled := True \<rparr>"
  by (simp add: accel_running_def accel_set_enable_on accel_engine_on_def
      mpu6050_accel_enable_def mpu6050_switch_engine_def Let_def mpu6050_config_sample_rate_def
      probed_sensor_eq mpu6050_h_def hrtimer_start_def ktime_set_ms_def NSEC_PER_MSEC_def
      MSEC_PER_SEC_def)

subsection \<open>Power control\<close>

text \<open>
  Claim C10.  For every sensor and every requested value, \<open>mpu6050_power_ctl\<close> returns 0,
  leaves the power flag equal to the requested value, changes nothing when the flag
  already has that value, and is idempotent.  Its return value is never negative, so the
  test \<^verbatim>\<open>ret < 0\<close> after the power-up in the two enable functions never succeeds: each
  of them is the engine switch-on applied to the sensor with the power flag set.
\<close>

theorem power_ctl_never_fails:
  "fst (mpu6050_power_ctl s on) = 0
   \<and> power_enabled (snd (mpu6050_power_ctl s on)) = on
   \<and> (power_enabled s = on \<longrightarrow> snd (mpu6050_power_ctl s on) = s)
   \<and> mpu6050_power_ctl (snd (mpu6050_power_ctl s on)) on = mpu6050_power_ctl s on
   \<and> \<not> fst (mpu6050_power_ctl s True) < 0
   \<and> mpu6050_gyro_set_enable c s True = gyro_engine_on c (s\<lparr> power_enabled := True \<rparr>)
   \<and> mpu6050_accel_set_enable c s True = accel_engine_on c (s\<lparr> power_enabled := True \<rparr>)"
  by (simp add: power_ctl_eq power_enabled_upd_same gyro_set_enable_on accel_set_enable_on)

theorem power_ctl_never_fails_witness:
  "power_enabled probed_sensor = False
   \<and> snd (mpu6050_power_ctl probed_sensor False) = probed_sensor"
  using power_ctl_never_fails [of probed_sensor False] by (simp add: probed_sensor_eq)

subsection \<open>A failed enable\<close>

lemma gyro_engine_on_fail: "fst (gyro_engine_on c s) \<noteq> 0 \<longleftrightarrow> is_asleep (cfg s)"
  by (simp add: gyro_engine_on_def mpu6050_gyro_enable_def mpu6050_switch_engine_def
      EINVAL_def EBUSY_def Let_def split_beta mpu6050_config_sample_rate_def)

lemma gyro_engine_on_asleep: "is_asleep (cfg s) \<Longrightarrow> gyro_engine_on c s = (- EBUSY, s)"
  by (simp add: gyro_engine_on_def mpu6050_gyro_enable_def EINVAL_def)

lemma accel_engine_on_fail: "fst (accel_engine_on c s) \<noteq> 0 \<longleftrightarrow> is_asleep (cfg s)"
  by (simp add: accel_engine_on_def mpu6050_accel_enable_def mpu6050_switch_engine_def
      EINVAL_def EBUSY_def Let_def split_beta mpu6050_config_sample_rate_def)

lemma accel_engine_on_asleep: "is_asleep (cfg s) \<Longrightarrow> accel_engine_on c s = (- EBUSY, s)"
  by (simp add: accel_engine_on_def mpu6050_accel_enable_def EINVAL_def)

lemma sensors_enable_fail: "fst (sensors_enable c ch s True) \<noteq> 0 \<longleftrightarrow> is_asleep (cfg s)"
  by (cases ch) (simp_all add: sensors_enable_def gyro_set_enable_on accel_set_enable_on
      gyro_engine_on_fail accel_engine_on_fail)

lemma sensors_enable_asleep:
  "is_asleep (cfg s) \<Longrightarrow>
   sensors_enable c ch s True = (- EBUSY, s\<lparr> power_enabled := True \<rparr>)"
  by (cases ch) (simp_all add: sensors_enable_def gyro_set_enable_on accel_set_enable_on
      gyro_engine_on_asleep accel_engine_on_asleep)

text \<open>
  Claim C2 as stated fails.  On the probed sensor with the chip marked asleep, both
  channels disabled and the power off, enabling the gyroscope returns \<open>-EBUSY\<close> and
  leaves both channels disabled, but the power flag is now true: the flag is not
  consistent with the channels.
\<close>

theorem failed_enable_power_inconsistent:
  "accel_en asleep_sensor = 0 \<and> gyro_en asleep_sensor = 0 \<and> \<not> power_enabled asleep_sensor
   \<and> fst (mpu6050_gyro_set_enable mpu6050_h asleep_sensor True) = - 16
   \<and> \<not> channel_enabled (snd (mpu6050_gyro_set_enable mpu6050_h asleep_sensor True)) Accel
   \<and> \<not> channel_enabled (snd (mpu6050_gyro_set_enable mpu6050_h asleep_sensor True)) Gyro
   \<and> power_enabled (snd (mpu6050_gyro_set_enable mpu6050_h asleep_sensor True))
   \<and> \<not> power_consistent (snd (mpu6050_gyro_set_enable mpu6050_h asleep_sensor True))"
  by (simp add: asleep_sensor_def probed_sensor_eq gyro_set_enable_on gyro_engine_on_asleep
      power_consistent_def EBUSY_def)

text \<open>
  Claim C2, amended.  From a sensor with both channels disabled, an enable call on either
  channel that fails has found the chip asleep at the engine switch (the only step that
  can fail), returns \<open>-EBUSY\<close>, and leaves the sensor as it was except that the power
  flag is set: both channels are still disabled, no timer is armed by the call, and the
  power that the call switched on is not switched off again.
\<close>

theorem failed_enable_leaves_power_on:
  assumes "accel_en s = 0" and "gyro_en s = 0"
    and "fst (sensors_enable c ch s True) \<noteq> 0"
  shows "is_asleep (cfg s)
    \<and> sensors_enable c ch s True = (- EBUSY, s\<lparr> power_enabled := True \<rparr>)
    \<and> \<not> channel_enabled (snd (sensors_enable c ch s True)) Accel
    \<and> \<not> channel_enabled (snd (sensors_enable c ch s True)) Gyro
    \<and> power_enabled (snd (sensors_enable c ch s True))"
proof -
  from assms(3) have a: "is_asleep (cfg s)" by (simp add: sensors_enable_fail)
  show ?thesis using a assms(1,2) by (simp add: sensors_enable_asleep)
qed

theorem failed_enable_leaves_power_on_witness:
  "accel_en asleep_sensor = 0 \<and> gyro_en asleep_sensor = 0
   \<and> fst (sensors_enable mpu6050_h Accel asleep_sensor True) \<noteq> 0
   \<and> sensors_enable mpu6050_h Accel asleep_sensor True
       = (- EBUSY, asleep_sensor\<lparr> power_enabled := True \<rparr>)"
proof -
  have h: "accel_en asleep_sensor = 0" "gyro_en asleep_sensor = 0"
    "fst (sensors_enable mpu6050_h Accel asleep_sensor True) \<noteq> 0"
    by (simp_all add: asleep_sensor_def probed_sensor_eq sensors_enable_fail)
  show ?thesis using h failed_enable_leaves_power_on [OF h] by simp
qed

subsection \<open>Poll delay\<close>

text \<open>
  Claim C8, evaluated on the code.  The gyroscope is enabled in polling mode with its
  timer armed for the 200 ms of the probe.  \<open>mpu6050_gyro_set_poll_delay\<close> with 5 ms
  returns 0, stores 10 ms and sets \<open>gyro_delay_change\<close>, but the timer is still the one
  armed for 200 ms: it is neither cancelled nor armed again for 10 ms.
\<close>

theorem gyro_set_poll_delay_keeps_timer:
  "gyro_en gyro_running \<noteq> 0 \<and> use_poll gyro_running
   \<and> gyro_timer gyro_running = Some (200 * NSEC_PER_MSEC)
   \<and> mpu6050_gyro_set_poll_delay gyro_running 5
        = (0, gyro_running\<lparr> gyro_delay_change := True, gyro_poll_ms := 10 \<rparr>)
   \<and> gyro_timer (snd (mpu6050_gyro_set_poll_delay gyro_running 5))
        = Some (200 * NSEC_PER_MSEC)
   \<and> gyro_timer (snd (mpu6050_gyro_set_poll_delay gyro_running 5))
        \<noteq> Some (10 * NSEC_PER_MSEC)"
  by (simp add: gyro_running_eq probed_sensor_eq mpu6050_gyro_set_poll_delay_def Let_def
      MPU6050_GYRO_MIN_POLL_INTERVAL_MS_def MPU6050_GYRO_MAX_POLL_INTERVAL_MS_def
      NSEC_PER_MSEC_def)

text \<open>
  The accelerometer's function does what the gyroscope's misses: in the same situation it
  cancels the timer and arms it for 10 ms.  For the gyroscope the new delay is first used
  when the armed timer expires and its callback arms it again.
\<close>

lemma accel_set_poll_delay_rearms:
  "accel_timer (snd (mpu6050_accel_set_poll_delay mpu6050_h accel_running 5))
     = Some (10 * NSEC_PER_MSEC)"
  by (simp add: accel_running_eq probed_sensor_eq mpu6050_accel_set_poll_delay_def Let_def
      MPU6050_ACCEL_MIN_POLL_INTERVAL_MS_def MPU6050_ACCEL_MAX_POLL_INTERVAL_MS_def
      NSEC_PER_MSEC_def hrtimer_start_def hrtimer_try_to_cancel_def ktime_set_ms_def)

lemma gyro_callback_rearms:
  "gyro_timer (gyro_timer_handle (snd (mpu6050_gyro_set_poll_delay gyro_running 5)))
     = Some (10 * NSEC_PER_MSEC)"
  by (simp add: gyro_running_eq probed_sensor_eq mpu6050_gyro_set_poll_delay_def Let_def
      MPU6050_GYRO_MIN_POLL_INTERVAL_MS_def MPU6050_GYRO_MAX_POLL_INTERVAL_MS_def
      NSEC_PER_MSEC_def gyro_timer_handle_def mpu6050_manage_polling_def SNS_TYPE_GYRO_def
      hrtimer_start_def hrtimer_try_to_cancel_def ktime_set_ms_def)

text \<open>
  A delay that clamps to the stored one changes nothing of the sensor, on either channel;
  the gyroscope's function returns 0, the accelerometer's returns its uninitialised
  \<^verbatim>\<open>ret\<close>.
\<close>

lemma gyro_set_poll_delay_same:
  "unat (gyro_poll_ms s) = max 10 (min 5000 d) \<Longrightarrow> mpu6050_gyro_set_poll_delay s d = (0, s)"
  by (simp add: mpu6050_gyro_set_poll_delay_def Let_def
      MPU6050_GYRO_MIN_POLL_INTERVAL_MS_def MPU6050_GYRO_MAX_POLL_INTERVAL_MS_def)

lemma accel_set_poll_delay_same:
  "unat (accel_poll_ms s) = max 10 (min 5000 d) \<Longrightarrow>
   mpu6050_accel_set_poll_delay c s d = (None, s)"
  by (simp add: mpu6050_accel_set_poll_delay_def Let_def
      MPU6050_ACCEL_MIN_POLL_INTERVAL_MS_def MPU6050_ACCEL_MAX_POLL_INTERVAL_MS_def)

text \<open>
  Claim C9, evaluated on the code.  The probed sensor stores 200 ms for the
  accelerometer.  \<open>mpu6050_accel_set_poll_delay\<close> with 200 ms leaves the sensor as it is,
  but what it returns is the local \<^verbatim>\<open>ret\<close> that was never assigned (\<open>None\<close>), not 0;
  the gyroscope's function returns 0 there.
\<close>

theorem accel_set_poll_delay_same_returns_unassigned:
  "unat (accel_poll_ms probed_sensor) = 200
   \<and> mpu6050_accel_set_poll_delay mpu6050_h probed_sensor 200 = (None, probed_sensor)
   \<and> mpu6050_gyro_set_poll_delay probed_sensor 200 = (0, probed_sensor)"
  by (simp add: probed_sensor_eq mpu6050_accel_set_poll_delay_def
      mpu6050_gyro_set_poll_delay_def Let_def
      MPU6050_ACCEL_MIN_POLL_INTERVAL_MS_def MPU6050_ACCEL_MAX_POLL_INTERVAL_MS_def
      MPU6050_GYRO_MIN_POLL_INTERVAL_MS_def MPU6050_GYRO_MAX_POLL_INTERVAL_MS_def)

subsection \<open>Calibration\<close>

lemma csr_cal: "acc_use_cal (snd (mpu6050_config_sample_rate c s)) = acc_use_cal s"
  by (simp add: mpu6050_config_sample_rate_def Let_def)

lemma cal_gyro_on: "acc_use_cal (snd (mpu6050_gyro_set_enable c s True)) = acc_use_cal s"
  by (simp add: gyro_set_enable_on gyro_engine_on_def mpu6050_gyro_enable_def
      mpu6050_switch_engine_def Let_def split_beta csr_cal)

lemma cal_accel_on: "acc_use_cal (snd (mpu6050_accel_set_enable c s True)) = acc_use_cal s"
  by (simp add: accel_set_enable_on accel_engine_on_def mpu6050_accel_enable_def
      mpu6050_switch_engine_def Let_def split_beta csr_cal)

lemma cal_gyro_off: "acc_use_cal (snd (mpu6050_gyro_set_enable c s False)) = acc_use_cal s"
  by (simp add: mpu6050_gyro_set_enable_def gyro_engine_off_def mpu6050_gyro_enable_def
      mpu6050_switch_engine_def Let_def split_beta power_ctl_eq cancel_resume_work_def)

lemma cal_accel_off: "acc_use_cal (snd (mpu6050_accel_set_enable c s False)) = acc_use_cal s"
  by (simp add: mpu6050_accel_set_enable_def accel_engine_off_def mpu6050_accel_enable_def
      mpu6050_switch_engine_def Let_def split_beta power_ctl_eq cancel_resume_work_def)

lemma cal_gyro_delay: "acc_use_cal (snd (mpu6050_gyro_set_poll_delay s d)) = acc_use_cal s"
  by (simp add: mpu6050_gyro_set_poll_delay_def Let_def)

lemma cal_accel_delay:
  "acc_use_cal (snd (mpu6050_accel_set_poll_delay c s d)) = acc_use_cal s"
  by (simp add: mpu6050_accel_set_poll_delay_def Let_def split_beta csr_cal)

lemma cal_step: "acc_use_cal (step c s x) = acc_use_cal s"
  by (cases "(c, s, x)" rule: step.cases)
     (simp_all add: cal_gyro_on cal_accel_on cal_gyro_off cal_accel_off cal_gyro_delay
        cal_accel_delay)

lemma cal_probe: "\<not> acc_use_cal (snd (mpu6050_probe c plc))"
  by (simp add: mpu6050_probe_def power_ctl_eq mpu6050_set_lpa_freq_def
      mpu6050_init_config_def Let_def mpu6050_reset_chip_def kzalloc_sensor_def)

lemma accel_iteration_report:
  "snd (accel_poll_iteration False ts s)
     = Some \<lparr> abs_0 = sint (axis_x (mpu6050_remap_accel_data (axis s) (place s))),
              abs_1 = sint (axis_y (mpu6050_remap_accel_data (axis s) (place s))),
              abs_2 = sint (axis_z (mpu6050_remap_accel_data (axis s) (place s))),
              syn_time_sec = ts div 1000000000,
              syn_time_nsec = ts mod 1000000000,
              wake_up_idle = (if accel_delay_change s
                              then Some (accel_poll_ms s \<le> POLL_MS_100HZ) else None) \<rparr>"
  by (simp add: accel_poll_iteration_def Let_def)

text \<open>
  Claim C5 as stated fails.  With calibration switched on and a bias of 100 on the first
  axis, a reading whose placement transform is 1000 is published as 1000: the bias is
  neither subtracted nor added.
\<close>

theorem calibration_not_applied:
  "acc_use_cal calibrated_sensor \<and> acc_cal_params calibrated_sensor = (100, 0, 0)
   \<and> sint (axis_x (mpu6050_remap_accel_data (axis calibrated_sensor)
                     (place calibrated_sensor))) = 1000
   \<and> map_option abs_0 (snd (accel_poll_iteration False 0 calibrated_sensor)) = Some 1000"
  by (simp add: calibrated_sensor_def probed_sensor_eq accel_poll_iteration_def Let_def
      mpu6050_remap_accel_data_def)

text \<open>
  Claim C5, amended.  In every state, each sample the accelerometer worker publishes is
  the placement transform of the accelerometer axes and nothing else: the calibration
  flag and the bias do not enter the sample.  The flag is false after probe, and no
  enable, disable or set-interval call changes it.
\<close>

theorem accel_report_ignores_calibration:
  "snd (accel_poll_iteration False ts (s\<lparr> acc_use_cal := u, acc_cal_params := p \<rparr>))
     = snd (accel_poll_iteration False ts s)
   \<and> map_option abs_0 (snd (accel_poll_iteration False ts s))
       = Some (sint (axis_x (mpu6050_remap_accel_data (axis s) (place s))))
   \<and> map_option abs_1 (snd (accel_poll_iteration False ts s))
       = Some (sint (axis_y (mpu6050_remap_accel_data (axis s) (place s))))
   \<and> map_option abs_2 (snd (accel_poll_iteration False ts s))
       = Some (sint (axis_z (mpu6050_remap_accel_data (axis s) (place s))))
   \<and> \<not> acc_use_cal (snd (mpu6050_probe c plc))
   \<and> acc_use_cal (step c s x) = acc_use_cal s"
  by (simp add: accel_iteration_report cal_probe cal_step)

subsection \<open>Placement remap\<close>

lemma mul_s16_1: "mul_s16 v 1 = v"
  by (simp add: mul_s16_def)

lemma mul_s16_m1: "mul_s16 v (- 1) = - v"
  by (simp add: mul_s16_def)

lemma sint_neg16: "sint (v :: 16 word) \<noteq> - 32768 \<Longrightarrow> sint (- v) = - sint v"
proof -
  assume a: "sint v \<noteq> - 32768"
  have "- (2 ^ 15) \<le> sint v" "sint v < 2 ^ 15"
    using sint_ge [of v] sint_lt [of v] by simp_all
  then have "- (2 ^ 15) \<le> - sint v \<and> - sint v < 2 ^ 15" using a by simp
  then have "signed_take_bit 15 (- sint v) = - sint v"
    by (simp add: signed_take_bit_int_eq_self)
  then show ?thesis by (simp add: sint_word_ariths)
qed

lemma place_cases: "1 \<le> plc \<Longrightarrow> plc \<le> 7 \<Longrightarrow> plc = 1 \<or> plc = 2 \<or> plc = 3 \<or> plc = 4 \<or> plc = 5 \<or> plc = 6 \<or> plc = (7::int)"
  by arith

text \<open>
  In 16-bit arithmetic every output axis is the row's sign times the source axis, for all
  readings; the integer product differs from it only where \<open>-32768\<close> is negated.
\<close>

lemma accel_axes_remap:
  assumes "1 \<le> plc" "plc \<le> 7"
  shows "accel_axes (mpu6050_remap_accel_data d plc)
           = table_product16 (mpu6050_accel_axis_remap_tab ! nat plc) (accel_axes d)"
  using place_cases [OF assms]
  by (elim disjE) (simp_all add: mpu6050_remap_accel_data_def MPU6050_AXIS_REMAP_TAB_SZ_def
      mpu6050_accel_axis_remap_tab_def mk_remap_def Let_def mul_s16_1 mul_s16_m1
      accel_axes_def table_product16_def)

lemma gyro_axes_remap:
  assumes "1 \<le> plc" "plc \<le> 7"
  shows "gyro_axes (mpu6050_remap_gyro_data d plc)
           = table_product16 (mpu6050_gyro_axis_remap_tab ! nat plc) (gyro_axes d)"
  using place_cases [OF assms]
  by (elim disjE) (simp_all add: mpu6050_remap_gyro_data_def MPU6050_AXIS_REMAP_TAB_SZ_def
      mpu6050_gyro_axis_remap_tab_def mk_remap_def Let_def mul_s16_1 mul_s16_m1
      gyro_axes_def table_product16_def)

lemma sint_neg16_iff: "sint (- v) = - sint (v :: 16 word) \<longleftrightarrow> sint v \<noteq> - 32768"
proof
  assume a: "sint (- v) = - sint v"
  show "sint v \<noteq> - 32768"
  proof
    assume "sint v = - 32768"
    then have "sint (- v) = 32768" using a by simp
    moreover have "sint (- v) < 2 ^ 15" using sint_lt [of "- v"] by simp
    ultimately show False by simp
  qed
qed (rule sint_neg16)

lemma nonzero_accel:
  assumes "1 \<le> plc" "plc \<le> 7"
  shows "nonzero_axes (accel_axes (mpu6050_remap_accel_data d plc)) = nonzero_axes (accel_axes d)"
  using place_cases [OF assms]
  by (elim disjE) (simp_all add: mpu6050_remap_accel_data_def MPU6050_AXIS_REMAP_TAB_SZ_def
      mpu6050_accel_axis_remap_tab_def mk_remap_def Let_def mul_s16_1 mul_s16_m1
      accel_axes_def nonzero_axes_def)

lemma nonzero_gyro:
  assumes "1 \<le> plc" "plc \<le> 7"
  shows "nonzero_axes (gyro_axes (mpu6050_remap_gyro_data d plc)) = nonzero_axes (gyro_axes d)"
  using place_cases [OF assms]
  by (elim disjE) (simp_all add: mpu6050_remap_gyro_data_def MPU6050_AXIS_REMAP_TAB_SZ_def
      mpu6050_gyro_axis_remap_tab_def mk_remap_def Let_def mul_s16_1 mul_s16_m1
      gyro_axes_def nonzero_axes_def)

lemma product_accel_iff:
  assumes "1 \<le> plc" "plc \<le> 7"
  shows "(map sint (accel_axes (mpu6050_remap_accel_data d plc))
            = table_product (mpu6050_accel_axis_remap_tab ! nat plc) (accel_axes d))
         = (\<not> negates_min (mpu6050_accel_axis_remap_tab ! nat plc) (accel_axes d))"
  using place_cases [OF assms]
  by (elim disjE) (simp_all add: mpu6050_remap_accel_data_def MPU6050_AXIS_REMAP_TAB_SZ_def
      mpu6050_accel_axis_remap_tab_def mk_remap_def Let_def mul_s16_1 mul_s16_m1
      accel_axes_def table_product_def negates_min_def sint_neg16_iff)

lemma product_gyro_iff:
  assumes "1 \<le> plc" "plc \<le> 7"
  shows "(map sint (gyro_axes (mpu6050_remap_gyro_data d plc))
            = table_product (mpu6050_gyro_axis_remap_tab ! nat plc) (gyro_axes d))
         = (\<not> negates_min (mpu6050_gyro_axis_remap_tab ! nat plc) (gyro_axes d))"
  using place_cases [OF assms]
  by (elim disjE) (simp_all add: mpu6050_remap_gyro_data_def MPU6050_AXIS_REMAP_TAB_SZ_def
      mpu6050_gyro_axis_remap_tab_def mk_remap_def Let_def mul_s16_1 mul_s16_m1
      gyro_axes_def table_product_def negates_min_def sint_neg16_iff)

lemma remap_identity:
  "plc \<le> 0 \<or> 8 \<le> plc \<Longrightarrow> mpu6050_remap_accel_data d plc = d \<and> mpu6050_remap_gyro_data d plc = d"
  by (auto simp: mpu6050_remap_accel_data_def mpu6050_remap_gyro_data_def MPU6050_AXIS_REMAP_TAB_SZ_def)

text \<open>
  Claim C4 as stated fails.  The reading with \<open>-32768\<close> on the first accelerometer axis
  and zero elsewhere has one non-zero axis.  At placement 1 the table sends the first axis
  to the second with sign \<open>-1\<close>, so the output should be \<open>32768\<close> there; the 16-bit
  product is \<open>-32768\<close>, which has the sign the table was to flip.
\<close>

theorem remap_min_reading_keeps_sign:
  "nonzero_axes (accel_axes min_reading) = 1
   \<and> table_product (mpu6050_accel_axis_remap_tab ! nat 1) (accel_axes min_reading)
        = [0, 32768, 0]
   \<and> map sint (accel_axes (mpu6050_remap_accel_data min_reading 1)) = [0, - 32768, 0]
   \<and> map sint (accel_axes (mpu6050_remap_accel_data min_reading 1))
        \<noteq> table_product (mpu6050_accel_axis_remap_tab ! nat 1) (accel_axes min_reading)"
  by (simp add: min_reading_def accel_axes_def nonzero_axes_def mpu6050_remap_accel_data_def
      MPU6050_AXIS_REMAP_TAB_SZ_def mpu6050_accel_axis_remap_tab_def mk_remap_def Let_def
      mul_s16_1 mul_s16_m1 table_product_def)

text \<open>
  Claim C4, amended.  For a placement of 0 or outside 0..7 both remaps return their input
  unchanged.  For a placement in 1..7 and a reading with exactly one non-zero axis of a
  channel, that channel's remap leaves exactly one non-zero axis, and each output axis is
  the table row's sign times the source axis the row names, so that the non-zero output
  has the sign the table gives, exactly when the row does not negate a reading of
  \<open>-32768\<close>: a \<open>-32768\<close> that the row takes with sign 1 is covered, one that it
  takes with sign \<open>-1\<close> is the only exception.
\<close>

theorem remap_single_axis:
  "(plc \<le> 0 \<or> 8 \<le> plc \<longrightarrow>
      mpu6050_remap_accel_data d plc = d \<and> mpu6050_remap_gyro_data d plc = d)
   \<and> (1 \<le> plc \<and> plc \<le> 7 \<and> nonzero_axes (accel_axes d) = 1 \<longrightarrow>
        nonzero_axes (accel_axes (mpu6050_remap_accel_data d plc)) = 1
        \<and> ((map sint (accel_axes (mpu6050_remap_accel_data d plc))
               = table_product (mpu6050_accel_axis_remap_tab ! nat plc) (accel_axes d))
             = (\<not> negates_min (mpu6050_accel_axis_remap_tab ! nat plc) (accel_axes d))))
   \<and> (1 \<le> plc \<and> plc \<le> 7 \<and> nonzero_axes (gyro_axes d) = 1 \<longrightarrow>
        nonzero_axes (gyro_axes (mpu6050_remap_gyro_data d plc)) = 1
        \<and> ((map sint (gyro_axes (mpu6050_remap_gyro_data d plc))
               = table_product (mpu6050_gyro_axis_remap_tab ! nat plc) (gyro_axes d))
             = (\<not> negates_min (mpu6050_gyro_axis_remap_tab ! nat plc) (gyro_axes d))))"
proof (intro conjI impI)
  assume "plc \<le> 0 \<or> 8 \<le> plc"
  then show "mpu6050_remap_accel_data d plc = d" "mpu6050_remap_gyro_data d plc = d"
    using remap_identity by simp_all
next
  assume a: "1 \<le> plc \<and> plc \<le> 7 \<and> nonzero_axes (accel_axes d) = 1"
  then show "nonzero_axes (accel_axes (mpu6050_remap_accel_data d plc)) = 1"
    by (simp add: nonzero_accel)
  from a show "(map sint (accel_axes (mpu6050_remap_accel_data d plc))
      = table_product (mpu6050_accel_axis_remap_tab ! nat plc) (accel_axes d))
      = (\<not> negates_min (mpu6050_accel_axis_remap_tab ! nat plc) (accel_axes d))"
    by (simp only: product_accel_iff)
next
  assume a: "1 \<le> plc \<and> plc \<le> 7 \<and> nonzero_axes (gyro_axes d) = 1"
  then show "nonzero_axes (gyro_axes (mpu6050_remap_gyro_data d plc)) = 1"
    by (simp add: nonzero_gyro)
  from a show "(map sint (gyro_axes (mpu6050_remap_gyro_data d plc))
      = table_product (mpu6050_gyro_axis_remap_tab ! nat plc) (gyro_axes d))
      = (\<not> negates_min (mpu6050_gyro_axis_remap_tab ! nat plc) (gyro_axes d))"
    by (simp only: product_gyro_iff)
qed

theorem remap_single_axis_witness:
  "nonzero_axes (accel_axes one_axis_reading) = 1
   \<and> nonzero_axes (gyro_axes one_axis_reading) = 1
   \<and> nonzero_axes (accel_axes min_y_reading) = 1
   \<and> \<not> negates_min (mpu6050_accel_axis_remap_tab ! nat 1) (accel_axes one_axis_reading)
   \<and> \<not> negates_min (mpu6050_gyro_axis_remap_tab ! nat 1) (gyro_axes one_axis_reading)
   \<and> \<not> negates_min (mpu6050_accel_axis_remap_tab ! nat 1) (accel_axes min_y_reading)
   \<and> nonzero_axes (accel_axes (mpu6050_remap_accel_data one_axis_reading 1)) = 1
   \<and> map sint (accel_axes (mpu6050_remap_accel_data one_axis_reading 1)) = [0, - 5, 0]
   \<and> nonzero_axes (gyro_axes (mpu6050_remap_gyro_data one_axis_reading 1)) = 1
   \<and> map sint (gyro_axes (mpu6050_remap_gyro_data one_axis_reading 1)) = [7, 0, 0]
   \<and> nonzero_axes (accel_axes (mpu6050_remap_accel_data min_y_reading 1)) = 1
   \<and> map sint (accel_axes (mpu6050_remap_accel_data min_y_reading 1)) = [- 32768, 0, 0]
   \<and> mpu6050_remap_accel_data one_axis_reading 9 = one_axis_reading
   \<and> mpu6050_remap_gyro_data one_axis_reading 0 = one_axis_reading"
proof -
  have h: "nonzero_axes (accel_axes one_axis_reading) = 1"
    "nonzero_axes (gyro_axes one_axis_reading) = 1"
    "nonzero_axes (accel_axes min_y_reading) = 1"
    by (simp_all add: one_axis_reading_def min_y_reading_def accel_axes_def gyro_axes_def
        nonzero_axes_def)
  have n: "\<not> negates_min (mpu6050_accel_axis_remap_tab ! nat 1) (accel_axes one_axis_reading)"
    "\<not> negates_min (mpu6050_gyro_axis_remap_tab ! nat 1) (gyro_axes one_axis_reading)"
    "\<not> negates_min (mpu6050_accel_axis_remap_tab ! nat 1) (accel_axes min_y_reading)"
    by (simp_all add: one_axis_reading_def min_y_reading_def accel_axes_def gyro_axes_def
        negates_min_def mpu6050_accel_axis_remap_tab_def mpu6050_gyro_axis_remap_tab_def
        mk_remap_def)
  have t: "table_product (mpu6050_accel_axis_remap_tab ! nat 1) (accel_axes one_axis_reading)
             = [0, - 5, 0]"
    "table_product (mpu6050_gyro_axis_remap_tab ! nat 1) (gyro_axes one_axis_reading)
             = [7, 0, 0]"
    "table_product (mpu6050_accel_axis_remap_tab ! nat 1) (accel_axes min_y_reading)
             = [- 32768, 0, 0]"
    by (simp_all add: one_axis_reading_def min_y_reading_def accel_axes_def gyro_axes_def
        table_product_def mpu6050_accel_axis_remap_tab_def mpu6050_gyro_axis_remap_tab_def
        mk_remap_def)
  have p: "(1::int) \<le> 1 \<and> (1::int) \<le> 7" by simp
  from remap_single_axis [of 1 one_axis_reading] h(1,2) n(1,2) p
  have r: "nonzero_axes (accel_axes (mpu6050_remap_accel_data one_axis_reading 1)) = 1
      \<and> map sint (accel_axes (mpu6050_remap_accel_data one_axis_reading 1))
          = table_product (mpu6050_accel_axis_remap_tab ! nat 1) (accel_axes one_axis_reading)
      \<and> nonzero_axes (gyro_axes (mpu6050_remap_gyro_data one_axis_reading 1)) = 1
      \<and> map sint (gyro_axes (mpu6050_remap_gyro_data one_axis_reading 1))
          = table_product (mpu6050_gyro_axis_remap_tab ! nat 1) (gyro_axes one_axis_reading)"
    by blast
  from remap_single_axis [of 1 min_y_reading] h(3) n(3) p
  have m: "nonzero_axes (accel_axes (mpu6050_remap_accel_data min_y_reading 1)) = 1
      \<and> map sint (accel_axes (mpu6050_remap_accel_data min_y_reading 1))
          = table_product (mpu6050_accel_axis_remap_tab ! nat 1) (accel_axes min_y_reading)"
    by blast
  from remap_single_axis [of 9 one_axis_reading]
  have i9: "mpu6050_remap_accel_data one_axis_reading 9 = one_axis_reading" by simp
  from remap_single_axis [of 0 one_axis_reading]
  have i0: "mpu6050_remap_gyro_data one_axis_reading 0 = one_axis_reading" by simp
  show ?thesis using h n r [unfolded t] m [unfolded t] i9 i0 by blast
qed

subsection \<open>Sample rate\<close>

lemma config_awake:
  "\<not> is_asleep (cfg s) \<Longrightarrow>
   mpu6050_config_sample_rate c s =
     (0, s\<lparr> cfg := (cfg s)\<lparr> rate_div :=
        (if lpf (cfg s) \<noteq> MPU_DLPF_256HZ_NOLPF2 \<and> lpf (cfg s) \<noteq> MPU_DLPF_RESERVED
         then code_div (ODR_DLPF_ENA c) (DELAY_MS_MIN_DLPF c) (DELAY_MS_MAX_DLPF c)
                (min (accel_poll_ms s) (gyro_poll_ms s))
         else code_div (ODR_DLPF_DIS c) (DELAY_MS_MIN_NODLPF c) (DELAY_MS_MAX_NODLPF c)
                (min (accel_poll_ms s) (gyro_poll_ms s))) \<rparr> \<rparr>)"
  by (auto simp: mpu6050_config_sample_rate_def code_div_def Let_def min_def)

lemma config_asleep:
  "is_asleep (cfg s) \<Longrightarrow> mpu6050_config_sample_rate c s = (- EINVAL, s)"
  by (simp add: mpu6050_config_sample_rate_def)

lemma clamp_word:
  assumes "lo \<le> hi"
  shows "unat (if (if v > hi then hi else v) < lo then lo else (if v > hi then hi else v))
           = clamp_ms lo hi (v :: 32 word)"
  using assms by (auto simp: clamp_ms_def word_le_nat_alt word_less_nat_alt)

lemma clamp_ms_range: "lo \<le> hi \<Longrightarrow> unat lo \<le> clamp_ms lo hi v \<and> clamp_ms lo hi v \<le> unat hi"
  by (auto simp: clamp_ms_def word_le_nat_alt)

lemma div_value:
  assumes "1000 \<le> unat odr * unat d" "unat odr * unat d \<le> 256000"
  shows "unat (ucast ((odr * d) div MSEC_PER_SEC - 1 :: 32 word) :: 8 word)
           = (unat odr * unat d) div 1000 - 1"
proof -
  have m: "unat (odr * d) = unat odr * unat d"
    using assms(2) by (simp add: unat_word_ariths)
  have q: "unat ((odr * d) div MSEC_PER_SEC) = (unat odr * unat d) div 1000"
    by (simp add: unat_div m MSEC_PER_SEC_def)
  have q1: "1 \<le> (unat odr * unat d) div 1000" using assms(1) by simp
  have q2: "(unat odr * unat d) div 1000 \<le> 256" using assms(2) by simp
  have nz: "(odr * d) div MSEC_PER_SEC \<noteq> 0"
    using q q1 by (metis not_one_le_zero unat_0)
  have "unat ((odr * d) div MSEC_PER_SEC - 1) = (unat odr * unat d) div 1000 - 1"
    using unat_minus_one [OF nz] q by simp
  moreover have "unat (ucast w :: 8 word) = unat w mod 256" for w :: "32 word"
    by (simp add: unsigned_ucast_eq take_bit_eq_mod)
  ultimately show ?thesis using q1 q2 by simp
qed

lemma code_div_value:
  assumes "divider_fits odr lo hi"
  shows "unat (code_div odr lo hi v) = (unat odr * clamp_ms lo hi v) div 1000 - 1"
proof -
  from assms have le: "lo \<le> hi" and a: "1000 \<le> unat odr * unat lo"
    and b: "unat odr * unat hi \<le> 256000" by (simp_all add: divider_fits_def)
  define d where "d = (if (if v > hi then hi else v) < lo then lo else (if v > hi then hi else v))"
  have ud: "unat d = clamp_ms lo hi v" unfolding d_def by (rule clamp_word [OF le])
  have r: "unat lo \<le> unat d" "unat d \<le> unat hi" using clamp_ms_range [OF le, of v] ud by simp_all
  have "unat odr * unat lo \<le> unat odr * unat d" using r(1) by simp
  then have 1: "1000 \<le> unat odr * unat d" using a by linarith
  have "unat odr * unat d \<le> unat odr * unat hi" using r(2) by simp
  then have 2: "unat odr * unat d \<le> 256000" using b by linarith
  have "code_div odr lo hi v = ucast ((odr * d) div MSEC_PER_SEC - 1)"
    by (simp add: code_div_def d_def Let_def)
  then show ?thesis using div_value [OF 1 2] ud by simp
qed

lemma clamp_ms_mono: "v \<le> w \<Longrightarrow> clamp_ms lo hi v \<le> clamp_ms lo hi w"
  by (auto simp: clamp_ms_def word_le_nat_alt)

lemma code_div_mono:
  assumes "divider_fits odr lo hi" "v \<le> w"
  shows "unat (code_div odr lo hi v) \<le> unat (code_div odr lo hi w)"
proof -
  have "unat odr * clamp_ms lo hi v \<le> unat odr * clamp_ms lo hi w"
    using clamp_ms_mono [OF assms(2)] by simp
  then have "(unat odr * clamp_ms lo hi v) div 1000 \<le> (unat odr * clamp_ms lo hi w) div 1000"
    by (rule div_le_mono)
  then show ?thesis using code_div_value [OF assms(1)] by simp
qed

lemma round_whole:
  assumes "1000 dvd (n::nat)"
  shows "round (real n * real m / 1000) = int ((n * m) div 1000)"
proof -
  from assms obtain k where k: "n = 1000 * k" by (auto simp: dvd_def)
  have "real n * real m / 1000 = real_of_int (int (k * m))" by (simp add: k)
  then have "round (real n * real m / 1000) = int (k * m)"
    by (simp only: round_of_int)
  moreover have "(n * m) div 1000 = k * m" by (simp add: k)
  ultimately show ?thesis by simp
qed

lemma interval_after_config:
  assumes "\<not> is_asleep (cfg s)"
  shows "mpu6050_get_sample_interval (snd (mpu6050_config_sample_rate c s)) =
     (if lpf (cfg s) = MPU_DLPF_256HZ_NOLPF2 \<or> lpf (cfg s) = MPU_DLPF_RESERVED
      then ((unat (code_div (ODR_DLPF_DIS c) (DELAY_MS_MIN_NODLPF c) (DELAY_MS_MAX_NODLPF c)
                     (min (accel_poll_ms s) (gyro_poll_ms s))) + 1) * NSEC_PER_MSEC) div 8
      else (unat (code_div (ODR_DLPF_ENA c) (DELAY_MS_MIN_DLPF c) (DELAY_MS_MAX_DLPF c)
                     (min (accel_poll_ms s) (gyro_poll_ms s))) + 1) * NSEC_PER_MSEC)"
  by (simp add: config_awake [OF assms] mpu6050_get_sample_interval_def)

lemma mpu6050_h_fits:
  "divider_fits (ODR_DLPF_ENA mpu6050_h) (DELAY_MS_MIN_DLPF mpu6050_h) (DELAY_MS_MAX_DLPF mpu6050_h)"
  "divider_fits (ODR_DLPF_DIS mpu6050_h) (DELAY_MS_MIN_NODLPF mpu6050_h) (DELAY_MS_MAX_NODLPF mpu6050_h)"
  "1000 dvd unat (ODR_DLPF_ENA mpu6050_h)" "1000 dvd unat (ODR_DLPF_DIS mpu6050_h)"
  "ODR_DLPF_DIS mpu6050_h = 8000"
  by (simp_all add: mpu6050_h_def divider_fits_def)

text \<open>
  Claim C3.  On a chip that is awake, \<open>mpu6050_config_sample_rate\<close> returns 0 and sets
  the divider from the smaller of the two poll delays, clamped to the range of the mode:
  \<open>round (odr * delay / 1000) - 1\<close>, with the rate and range for the filter off when the
  filter mode is \<open>MPU_DLPF_256HZ_NOLPF2\<close> or \<open>MPU_DLPF_RESERVED\<close> and those for the
  filter on otherwise.  The rates and ranges are the header's; they are taken to be whole
  kilohertz (which makes the code's integer division exact) and to fit the register.
\<close>

theorem config_sample_rate_divisor:
  assumes "\<not> is_asleep (cfg s)"
    and "divider_fits (ODR_DLPF_ENA c) (DELAY_MS_MIN_DLPF c) (DELAY_MS_MAX_DLPF c)"
    and "1000 dvd unat (ODR_DLPF_ENA c)"
    and "divider_fits (ODR_DLPF_DIS c) (DELAY_MS_MIN_NODLPF c) (DELAY_MS_MAX_NODLPF c)"
    and "1000 dvd unat (ODR_DLPF_DIS c)"
  shows "fst (mpu6050_config_sample_rate c s) = 0
    \<and> uint (rate_div (cfg (snd (mpu6050_config_sample_rate c s)))) =
       (if lpf (cfg s) = MPU_DLPF_256HZ_NOLPF2 \<or> lpf (cfg s) = MPU_DLPF_RESERVED
        then round (real (unat (ODR_DLPF_DIS c))
                      * real (clamp_ms (DELAY_MS_MIN_NODLPF c) (DELAY_MS_MAX_NODLPF c)
                                (min (accel_poll_ms s) (gyro_poll_ms s))) / 1000) - 1
        else round (real (unat (ODR_DLPF_ENA c))
                      * real (clamp_ms (DELAY_MS_MIN_DLPF c) (DELAY_MS_MAX_DLPF c)
                                (min (accel_poll_ms s) (gyro_poll_ms s))) / 1000) - 1)"
proof -
  let ?m = "min (accel_poll_ms s) (gyro_poll_ms s)"
  have ge: "1 \<le> (unat odr * clamp_ms lo hi ?m) div 1000" if "divider_fits odr lo hi" for odr lo hi
  proof -
    from that have le: "lo \<le> hi" and a: "1000 \<le> unat odr * unat lo" by (simp_all add: divider_fits_def)
    have "unat odr * unat lo \<le> unat odr * clamp_ms lo hi ?m"
      using clamp_ms_range [OF le, of ?m] by simp
    then have "1000 \<le> unat odr * clamp_ms lo hi ?m" using a by linarith
    then show ?thesis by simp
  qed
  have v: "uint (code_div odr lo hi ?m) = round (real (unat odr) * real (clamp_ms lo hi ?m) / 1000) - 1"
    if "divider_fits odr lo hi" "1000 dvd unat odr" for odr lo hi
  proof -
    have "uint (code_div odr lo hi ?m) = int (unat (code_div odr lo hi ?m))" by simp
    also have "\<dots> = int ((unat odr * clamp_ms lo hi ?m) div 1000 - 1)"
      using code_div_value [OF that(1)] by simp
    also have "\<dots> = int ((unat odr * clamp_ms lo hi ?m) div 1000) - 1"
      using ge [OF that(1)] by (simp add: of_nat_diff)
    finally show ?thesis using round_whole [OF that(2)] by simp
  qed
  show ?thesis
    using v [OF assms(2,3)] v [OF assms(4,5)] by (simp add: config_awake [OF assms(1)])
qed

theorem config_sample_rate_divisor_witness:
  "\<not> is_asleep (cfg probed_sensor)
   \<and> divider_fits (ODR_DLPF_ENA mpu6050_h) (DELAY_MS_MIN_DLPF mpu6050_h)
        (DELAY_MS_MAX_DLPF mpu6050_h)
   \<and> 1000 dvd unat (ODR_DLPF_ENA mpu6050_h)
   \<and> divider_fits (ODR_DLPF_DIS mpu6050_h) (DELAY_MS_MIN_NODLPF mpu6050_h)
        (DELAY_MS_MAX_NODLPF mpu6050_h)
   \<and> 1000 dvd unat (ODR_DLPF_DIS mpu6050_h)
   \<and> uint (rate_div (cfg (snd (mpu6050_config_sample_rate mpu6050_h probed_sensor)))) = 199"
proof -
  have a: "\<not> is_asleep (cfg probed_sensor)" by (simp add: probed_sensor_eq)
  have k: "clamp_ms (DELAY_MS_MIN_DLPF mpu6050_h) (DELAY_MS_MAX_DLPF mpu6050_h)
             (min (accel_poll_ms probed_sensor) (gyro_poll_ms probed_sensor)) = 200"
    by (simp add: probed_sensor_eq clamp_ms_def mpu6050_h_def)
  have l: "lpf (cfg probed_sensor) = MPU_DLPF_42HZ" by (simp add: probed_sensor_eq)
  have o: "unat (ODR_DLPF_ENA mpu6050_h) = 1000" by (simp add: mpu6050_h_def)
  show ?thesis
    using a mpu6050_h_fits
      config_sample_rate_divisor [OF a mpu6050_h_fits(1) mpu6050_h_fits(3)
        mpu6050_h_fits(2) mpu6050_h_fits(4)]
    by (simp add: k l o)
qed

text \<open>
  Claim C6.  With the filter off (\<open>MPU_DLPF_256HZ_NOLPF2\<close> or \<open>MPU_DLPF_RESERVED\<close>)
  and both poll delays equal to \<open>i\<close>, the sample interval read back after
  \<open>mpu6050_config_sample_rate\<close> is \<open>(divider + 1)\<close> ms divided by 8, and it is the
  clamped \<open>i\<close> in nanoseconds: within one divider step (an eighth of a millisecond), in
  fact exactly.  The header's rate for this mode is taken to be the 8 kHz that the
  division by 8 stands for, with a range that fits the register.
\<close>

theorem sample_interval_roundtrip:
  assumes "\<not> is_asleep (cfg s)"
    and "lpf (cfg s) = MPU_DLPF_256HZ_NOLPF2 \<or> lpf (cfg s) = MPU_DLPF_RESERVED"
    and "accel_poll_ms s = i" and "gyro_poll_ms s = i"
    and "ODR_DLPF_DIS c = 8000"
    and "divider_fits (ODR_DLPF_DIS c) (DELAY_MS_MIN_NODLPF c) (DELAY_MS_MAX_NODLPF c)"
  shows "mpu6050_get_sample_interval (snd (mpu6050_config_sample_rate c s))
           = ((unat (rate_div (cfg (snd (mpu6050_config_sample_rate c s)))) + 1) * NSEC_PER_MSEC) div 8
    \<and> mpu6050_get_sample_interval (snd (mpu6050_config_sample_rate c s))
           = clamp_ms (DELAY_MS_MIN_NODLPF c) (DELAY_MS_MAX_NODLPF c) i * NSEC_PER_MSEC
    \<and> \<bar>int (mpu6050_get_sample_interval (snd (mpu6050_config_sample_rate c s)))
         - int (clamp_ms (DELAY_MS_MIN_NODLPF c) (DELAY_MS_MAX_NODLPF c) i * NSEC_PER_MSEC)\<bar>
        \<le> int (NSEC_PER_MSEC div 8)"
proof -
  let ?k = "clamp_ms (DELAY_MS_MIN_NODLPF c) (DELAY_MS_MAX_NODLPF c) i"
  let ?dv = "code_div (ODR_DLPF_DIS c) (DELAY_MS_MIN_NODLPF c) (DELAY_MS_MAX_NODLPF c) i"
  from assms(6) have le: "DELAY_MS_MIN_NODLPF c \<le> DELAY_MS_MAX_NODLPF c"
    and lo: "1000 \<le> unat (ODR_DLPF_DIS c) * unat (DELAY_MS_MIN_NODLPF c)"
    by (simp_all add: divider_fits_def)
  have lo1: "1 \<le> unat (DELAY_MS_MIN_NODLPF c)" using lo assms(5) by simp
  have k1: "1 \<le> ?k" using clamp_ms_range [OF le, of i] lo1 by linarith
  have "unat ?dv = (8000 * ?k) div 1000 - 1"
    using code_div_value [OF assms(6), of i] assms(5) by simp
  also have "\<dots> = 8 * ?k - 1" by simp
  finally have dv: "unat ?dv + 1 = 8 * ?k" using k1 by simp
  have rd: "rate_div (cfg (snd (mpu6050_config_sample_rate c s))) = ?dv"
    using assms(2,3,4) by (auto simp: config_awake [OF assms(1)])
  have 1: "mpu6050_get_sample_interval (snd (mpu6050_config_sample_rate c s))
             = ((unat ?dv + 1) * NSEC_PER_MSEC) div 8"
    using assms(2,3,4) by (auto simp: interval_after_config [OF assms(1)])
  have "((unat ?dv + 1) * NSEC_PER_MSEC) div 8 = (8 * ?k * NSEC_PER_MSEC) div 8"
    by (simp only: dv)
  then have 2: "((unat ?dv + 1) * NSEC_PER_MSEC) div 8 = ?k * NSEC_PER_MSEC"
    by (simp add: mult.assoc)
  show ?thesis unfolding rd using 1 2 by simp
qed

theorem sample_interval_roundtrip_witness:
  "\<not> is_asleep (cfg nolpf_sensor)
   \<and> lpf (cfg nolpf_sensor) = MPU_DLPF_256HZ_NOLPF2
   \<and> accel_poll_ms nolpf_sensor = 50 \<and> gyro_poll_ms nolpf_sensor = 50
   \<and> ODR_DLPF_DIS mpu6050_h = 8000
   \<and> divider_fits (ODR_DLPF_DIS mpu6050_h) (DELAY_MS_MIN_NODLPF mpu6050_h)
        (DELAY_MS_MAX_NODLPF mpu6050_h)
   \<and> mpu6050_get_sample_interval (snd (mpu6050_config_sample_rate mpu6050_h nolpf_sensor))
        = 32 * NSEC_PER_MSEC"
proof -
  have h: "\<not> is_asleep (cfg nolpf_sensor)"
    "lpf (cfg nolpf_sensor) = MPU_DLPF_256HZ_NOLPF2 \<or> lpf (cfg nolpf_sensor) = MPU_DLPF_RESERVED"
    "accel_poll_ms nolpf_sensor = 50" "gyro_poll_ms nolpf_sensor = 50"
    by (simp_all add: nolpf_sensor_def probed_sensor_eq)
  have l: "lpf (cfg nolpf_sensor) = MPU_DLPF_256HZ_NOLPF2"
    by (simp add: nolpf_sensor_def probed_sensor_eq)
  have k: "clamp_ms (DELAY_MS_MIN_NODLPF mpu6050_h) (DELAY_MS_MAX_NODLPF mpu6050_h) 50 = 32"
    by (simp add: clamp_ms_def mpu6050_h_def)
  show ?thesis
    using h(1,3,4) l mpu6050_h_fits(2,5)
      sample_interval_roundtrip [OF h mpu6050_h_fits(5) mpu6050_h_fits(2)]
    by (simp add: k)
qed

text \<open>
  Claim C7.  Raising the accelerometer's delay or the gyroscope's delay, the filter mode
  and everything else being the same, never lowers the sample interval read back after
  \<open>mpu6050_config_sample_rate\<close>.  The header's rates and ranges are taken to fit the
  register in both modes.
\<close>

theorem sample_interval_monotone:
  assumes "divider_fits (ODR_DLPF_ENA c) (DELAY_MS_MIN_DLPF c) (DELAY_MS_MAX_DLPF c)"
    and "divider_fits (ODR_DLPF_DIS c) (DELAY_MS_MIN_NODLPF c) (DELAY_MS_MAX_NODLPF c)"
    and "a \<le> a'" and "g \<le> g'"
  shows "mpu6050_get_sample_interval
           (snd (mpu6050_config_sample_rate c (s\<lparr> accel_poll_ms := a, gyro_poll_ms := g \<rparr>)))
         \<le> mpu6050_get_sample_interval
           (snd (mpu6050_config_sample_rate c (s\<lparr> accel_poll_ms := a', gyro_poll_ms := g' \<rparr>)))"
proof (cases "is_asleep (cfg s)")
  case True
  then show ?thesis by (simp add: config_asleep mpu6050_get_sample_interval_def)
next
  case False
  have m: "min a g \<le> min a' g'" using assms(3,4) by (simp add: min_le_iff_disj)
  have e: "unat (code_div (ODR_DLPF_ENA c) (DELAY_MS_MIN_DLPF c) (DELAY_MS_MAX_DLPF c) (min a g))
           \<le> unat (code_div (ODR_DLPF_ENA c) (DELAY_MS_MIN_DLPF c) (DELAY_MS_MAX_DLPF c) (min a' g'))"
    by (rule code_div_mono [OF assms(1) m])
  have d: "unat (code_div (ODR_DLPF_DIS c) (DELAY_MS_MIN_NODLPF c) (DELAY_MS_MAX_NODLPF c) (min a g))
           \<le> unat (code_div (ODR_DLPF_DIS c) (DELAY_MS_MIN_NODLPF c) (DELAY_MS_MAX_NODLPF c) (min a' g'))"
    by (rule code_div_mono [OF assms(2) m])
  have d8: "((unat (code_div (ODR_DLPF_DIS c) (DELAY_MS_MIN_NODLPF c) (DELAY_MS_MAX_NODLPF c) (min a g)) + 1) * NSEC_PER_MSEC) div 8
           \<le> ((unat (code_div (ODR_DLPF_DIS c) (DELAY_MS_MIN_NODLPF c) (DELAY_MS_MAX_NODLPF c) (min a' g')) + 1) * NSEC_PER_MSEC) div 8"
    using d by (intro div_le_mono mult_le_mono1) simp
  from False have f1: "\<not> is_asleep (cfg (s\<lparr> accel_poll_ms := a, gyro_poll_ms := g \<rparr>))"
    and f2: "\<not> is_asleep (cfg (s\<lparr> accel_poll_ms := a', gyro_poll_ms := g' \<rparr>))" by simp_all
  show ?thesis
    using e d8 by (simp add: interval_after_config [OF f1] interval_after_config [OF f2])
qed

theorem sample_interval_monotone_witness:
  "divider_fits (ODR_DLPF_ENA mpu6050_h) (DELAY_MS_MIN_DLPF mpu6050_h)
     (DELAY_MS_MAX_DLPF mpu6050_h)
   \<and> divider_fits (ODR_DLPF_DIS mpu6050_h) (DELAY_MS_MIN_NODLPF mpu6050_h)
        (DELAY_MS_MAX_NODLPF mpu6050_h)
   \<and> (10 :: 32 word) \<le> 200 \<and> (200 :: 32 word) \<le> 200
   \<and> mpu6050_get_sample_interval
        (snd (mpu6050_config_sample_rate mpu6050_h
               (probed_sensor\<lparr> accel_poll_ms := 10, gyro_poll_ms := 200 \<rparr>)))
      \<le> mpu6050_get_sample_interval
        (snd (mpu6050_config_sample_rate mpu6050_h
               (probed_sensor\<lparr> accel_poll_ms := 200, gyro_poll_ms := 200 \<rparr>)))"
proof -
  have h: "(10 :: 32 word) \<le> 200" "(200 :: 32 word) \<le> 200" by simp_all
  show ?thesis
    using h mpu6050_h_fits(1,2)
      sample_interval_monotone [OF mpu6050_h_fits(1) mpu6050_h_fits(2) h, of probed_sensor]
    by simp
qed

end
